theory Spec2Isabelle
  imports Main
begin

section \<open>Registration and admin approval bot (src/main.py)\<close>

text \<open>
  A shallow embedding of the handlers of \<^verbatim>\<open>src/main.py\<close>: \<^verbatim>\<open>start\<close>,
  \<^verbatim>\<open>button_handler\<close>, \<^verbatim>\<open>handle_photo\<close>, \<^verbatim>\<open>handle_text\<close> and
  \<^verbatim>\<open>show_main_menu\<close>, over an explicit state that holds the two SQL tables, the
  sequence behind \<^verbatim>\<open>payments.id\<close>, the in-memory dictionary \<^verbatim>\<open>user_state\<close> and the
  list of messages that the Telegram API accepted.

  Modelling decisions.
  \<^item> A Python \<^verbatim>\<open>str\<close> is the list of its code points. \<^verbatim>\<open>strip\<close>,
    \<^verbatim>\<open>splitlines\<close> and \<^verbatim>\<open>int\<close> follow CPython on every such list: the white
    space and the line boundaries of Unicode are written out, and the decimal
    digits beyond ASCII, which depend on the Unicode database of the interpreter,
    are read from the environment.
  \<^item> Integers are unbounded, as in Python. The limit that the interpreter sets on
    the number of digits in a conversion between \<^verbatim>\<open>int\<close> and \<^verbatim>\<open>str\<close> (4300 by
    default) is not modelled; an id of Telegram has far fewer digits.
  \<^item> The database is reachable and every value fits its column: an
    \<^verbatim>\<open>execute\<close> acts on the table, \<^verbatim>\<open>commit\<close> follows it in the same
    handler with no call in between that could raise, and the source never rolls
    back. The \<^verbatim>\<open>except\<close> branches that only a database error reaches are
    therefore not part of the model.
  \<^item> Every call of the Telegram API (\<^verbatim>\<open>answer\<close>, \<^verbatim>\<open>send_message\<close>,
    \<^verbatim>\<open>send_photo\<close>, \<^verbatim>\<open>edit_message_text\<close>, \<^verbatim>\<open>reply_text\<close>) may raise. The
    environment says for each message whether it is delivered; a message that is
    not delivered raises \<open>TelegramError\<close> at the place of the call.
  \<^item> \<^verbatim>\<open>datetime.datetime.now()\<close> is read from the environment: \<open>now e k\<close> is the
    value of the \<open>k\<close>-th call within one handler.
  \<^item> Logging (\<^verbatim>\<open>log_interaction\<close>, \<^verbatim>\<open>logger.exception\<close>) changes nothing that
    the handlers read and is left out.
  \<^item> Line 272 of the source closes the list comprehension one bracket early
    (\<^verbatim>\<open>[[InlineKeyboardButton(...)]] for name in ...\<close>), which Python rejects; the
    model takes the comprehension
    \<^verbatim>\<open>[[InlineKeyboardButton(...)] for name in PAYMENT_ACCOUNTS.keys()]\<close>.
\<close>

subsection \<open>Python strings\<close>

text \<open>A \<^verbatim>\<open>str\<close>: its code points, in order, as integers.\<close>

type_synonym str = "int list"

text \<open>A literal of the source all of whose characters are ASCII.\<close>

definition lit :: "string \<Rightarrow> str" where
  "lit s = map of_char s"

text \<open>
  The white space of \<^verbatim>\<open>str.strip\<close> and \<^verbatim>\<open>str.isspace\<close>: the characters 9 to 13,
  28 to 32, U+0085, U+00A0, U+1680, U+2000 to U+200A, U+2028, U+2029, U+202F, U+205F
  and U+3000.
\<close>

definition is_space :: "int \<Rightarrow> bool" where
  "is_space c =
     ((9 \<le> c \<and> c \<le> 13) \<or> (28 \<le> c \<and> c \<le> 32) \<or> c = 0x85 \<or> c = 0xA0 \<or> c = 0x1680
      \<or> (0x2000 \<le> c \<and> c \<le> 0x200A) \<or> c = 0x2028 \<or> c = 0x2029 \<or> c = 0x202F
      \<or> c = 0x205F \<or> c = 0x3000)"

text \<open>\<^verbatim>\<open>s.strip()\<close>\<close>

definition strip :: "str \<Rightarrow> str" where
  "strip s = rev (dropWhile is_space (rev (dropWhile is_space s)))"

text \<open>
  The line boundaries of \<^verbatim>\<open>str.splitlines\<close>: line feed, vertical tab, form feed,
  carriage return, the separators 28 to 30, U+0085, U+2028 and U+2029.
\<close>

definition is_linebreak :: "int \<Rightarrow> bool" where
  "is_linebreak c =
     ((10 \<le> c \<and> c \<le> 13) \<or> (28 \<le> c \<and> c \<le> 30) \<or> c = 0x85 \<or> c = 0x2028 \<or> c = 0x2029)"

text \<open>
  \<^verbatim>\<open>s.splitlines()\<close>: the flag says that the last character was a carriage return, so
  that a line feed right after it belongs to the same line boundary; \<open>cur\<close> is the
  current line, reversed. No empty last line is produced.
\<close>

fun splitlines_aux :: "bool \<Rightarrow> str \<Rightarrow> str \<Rightarrow> str list" where
  "splitlines_aux after_cr cur [] = (if cur = [] then [] else [rev cur])"
| "splitlines_aux after_cr cur (c # cs) =
     (if after_cr \<and> c = 10 then splitlines_aux False cur cs
      else if is_linebreak c then rev cur # splitlines_aux (c = 13) [] cs
      else splitlines_aux False (c # cur) cs)"

definition splitlines :: "str \<Rightarrow> str list" where
  "splitlines s = splitlines_aux False [] s"

definition startswith :: "str \<Rightarrow> str \<Rightarrow> bool" where
  "startswith s p = (take (length p) s = p)"

text \<open>
  \<^verbatim>\<open>s.split(sep)\<close> for a non-empty separator: occurrences are found from the left
  and do not overlap; \<open>k\<close> counts the characters of a found separator that are still
  to be skipped, \<open>cur\<close> is the current piece, reversed.
\<close>

fun split_aux :: "str \<Rightarrow> nat \<Rightarrow> str \<Rightarrow> str \<Rightarrow> str list" where
  "split_aux sep k cur [] = [rev cur]"
| "split_aux sep (Suc k) cur (c # cs) = split_aux sep k cur cs"
| "split_aux sep 0 cur (c # cs) =
     (if startswith (c # cs) sep then rev cur # split_aux sep (length sep - 1) [] cs
      else split_aux sep 0 (c # cur) cs)"

definition py_split :: "str \<Rightarrow> str \<Rightarrow> str list" where
  "py_split sep s = split_aux sep 0 [] s"

text \<open>
  \<^verbatim>\<open>int(s)\<close> first maps the string to ASCII: a character below 127 stays, white space
  beyond ASCII becomes a blank, a decimal digit beyond ASCII becomes the ASCII digit
  of its value, and any other character becomes a question mark. \<open>dec\<close> is the
  decimal digit value of a character in the Unicode database of the interpreter.
\<close>

definition asciify :: "(int \<Rightarrow> nat option) \<Rightarrow> int \<Rightarrow> int" where
  "asciify dec c =
     (if c < 127 then c
      else if is_space c then 32
      else case dec c of Some d \<Rightarrow> 48 + int d | None \<Rightarrow> 63)"

text \<open>The white space that the number parser skips: blank and the characters 9 to 13.\<close>

definition c_space :: "int \<Rightarrow> bool" where
  "c_space c = (c = 32 \<or> (9 \<le> c \<and> c \<le> 13))"

definition digit_val :: "int \<Rightarrow> nat option" where
  "digit_val c = (if 48 \<le> c \<and> c \<le> 57 then Some (nat (c - 48)) else None)"

fun digits_val :: "nat \<Rightarrow> str \<Rightarrow> nat option" where
  "digits_val acc [] = Some acc"
| "digits_val acc (c # cs) =
     (case digit_val c of None \<Rightarrow> None | Some d \<Rightarrow> digits_val (10 * acc + d) cs)"

text \<open>
  \<^verbatim>\<open>int(s)\<close>: on the ASCII form, white space before and after the number is skipped,
  one sign is allowed and at least one digit is required; \<open>None\<close> is
  \<^verbatim>\<open>ValueError\<close>. (The strings parsed here are pieces of a split at \<^verbatim>\<open>_\<close>, so
  Python's digit grouping with \<^verbatim>\<open>_\<close> cannot occur; the interpreter's limit on
  the number of digits is not modelled.)
\<close>

definition py_int :: "(int \<Rightarrow> nat option) \<Rightarrow> str \<Rightarrow> int option" where
  "py_int dec s =
     (case rev (dropWhile c_space (rev (dropWhile c_space (map (asciify dec) s)))) of
        [] \<Rightarrow> None
      | c # cs \<Rightarrow>
          if c = 45 then (if cs = [] then None else map_option (\<lambda>n. - int n) (digits_val 0 cs))
          else if c = 43 then (if cs = [] then None else map_option int (digits_val 0 cs))
          else map_option int (digits_val 0 (c # cs)))"

definition digit_char :: "nat \<Rightarrow> int" where
  "digit_char d = 48 + int d"

fun str_nat :: "nat \<Rightarrow> str" where
  "str_nat n = (if n < 10 then [digit_char n] else str_nat (n div 10) @ [digit_char (n mod 10)])"

declare str_nat.simps [simp del]

text \<open>\<^verbatim>\<open>str(i)\<close>, as an f-string renders an integer.\<close>

definition py_str :: "int \<Rightarrow> str" where
  "py_str i = (if i < 0 then 45 # str_nat (nat (- i)) else str_nat (nat i))"

text \<open>Truth value of an optional integer (\<^verbatim>\<open>None\<close> and \<^verbatim>\<open>0\<close> are false).\<close>

definition truthy :: "int option \<Rightarrow> bool" where
  "truthy v = (case v of None \<Rightarrow> False | Some n \<Rightarrow> n \<noteq> 0)"

text \<open>\<^verbatim>\<open>x or ""\<close> for an optional string.\<close>

definition or_empty :: "str option \<Rightarrow> str" where
  "or_empty v = (case v of None \<Rightarrow> [] | Some u \<Rightarrow> u)"

subsection \<open>Symbols of the message texts\<close>

definition sym_rocket :: str where "sym_rocket = [0x1F680]"
definition sym_question :: str where "sym_question = [0x2753]"
definition sym_back :: str where "sym_back = [0x1F519]"
definition sym_bullet :: str where "sym_bullet = [0x2022]"
definition sym_naira :: str where "sym_naira = [0x20A6]"
definition sym_dash :: str where "sym_dash = [0x2014]"
definition sym_arrow :: str where "sym_arrow = [0x2192]"
definition sym_check :: str where "sym_check = [0x2705]"
definition sym_cross :: str where "sym_cross = [0x274C]"
definition sym_party :: str where "sym_party = [0x1F389]"

subsection \<open>The tables, the session dictionary and the outbox\<close>

text \<open>The values that the source writes to \<^verbatim>\<open>users.payment_status\<close>.\<close>

datatype payment_status = New | Pending_payment | Pending_approval | Approved | Registered

text \<open>The values that the source writes to \<^verbatim>\<open>payments.status\<close>.\<close>

datatype attempt_status = Pending | Attempt_approved | Rejected

text \<open>A row of \<^verbatim>\<open>users\<close>; \<open>None\<close> is SQL \<^verbatim>\<open>NULL\<close>.\<close>

record user_row =
  u_chat_id :: int
  u_username :: "str option"
  u_name :: "str option"
  u_email :: "str option"
  u_phone :: "str option"
  u_package :: "str option"
  u_payment_status :: payment_status
  u_approved_at :: "int option"
  u_registration_date :: "int option"

text \<open>A row of \<^verbatim>\<open>payments\<close>.\<close>

record payment_row =
  p_id :: int
  p_chat_id :: int
  p_package :: "str option"
  p_payment_account :: str
  p_status :: attempt_status
  p_timestamp :: int
  p_approved_at :: "int option"

text \<open>
  An entry of \<^verbatim>\<open>user_state\<close>: a dictionary with the key \<^verbatim>\<open>expecting\<close> and one of
  the keys \<^verbatim>\<open>payment_id\<close> and \<^verbatim>\<open>for_user\<close>; an absent key is \<open>None\<close>, as
  \<^verbatim>\<open>dict.get\<close> returns it.
\<close>

record session =
  expecting :: str
  payment_id :: "int option"
  for_user :: "int option"

type_synonym keyboard = "(str \<times> str) list list"

text \<open>
  A call of the Telegram API. \<open>Answer\<close>, \<open>EditMessageText\<close> and \<open>ReplyText\<close> carry
  the id of the actor whose query or message they respond to.
\<close>

datatype out_msg =
    Answer int
  | SendMessage int str keyboard
  | SendPhoto int str str keyboard
  | EditMessageText int str keyboard
  | ReplyText int str keyboard

record state =
  users :: "user_row list"
  payments :: "payment_row list"
  payments_id_seq :: int
  user_state :: "int \<Rightarrow> session option"
  outbox :: "out_msg list"

text \<open>
  What a handler reads from outside the state: the configured administrator, the
  clocks, whether the Telegram API accepts a message, and the decimal digit value
  of a character beyond ASCII in the Unicode database of the interpreter (a table
  of the Python runtime, not of the repository; \<^verbatim>\<open>int\<close> reads it).
\<close>

record env =
  ADMIN_ID :: int
  now :: "nat \<Rightarrow> int"
  db_now :: int
  deliver :: "out_msg \<Rightarrow> bool"
  unicode_decimal :: "int \<Rightarrow> nat option"

datatype exn = TelegramError | ValueError | IndexError | AttributeError

text \<open>
  The result of a block of statements: \<open>Inr s\<close> when it ran to its end in state \<open>s\<close>,
  \<open>Inl (x, s)\<close> when it raised \<open>x\<close> in state \<open>s\<close> (what was written before the raise
  stays written).
\<close>

type_synonym outcome = "(exn \<times> state) + state"

definition state_of :: "outcome \<Rightarrow> state" where
  "state_of r = (case r of Inl (x, s) \<Rightarrow> s | Inr s \<Rightarrow> s)"

definition send :: "env \<Rightarrow> out_msg \<Rightarrow> state \<Rightarrow> outcome" where
  "send e m s = (if deliver e m then Inr (s\<lparr>outbox := outbox s @ [m]\<rparr>) else Inl (TelegramError, s))"

text \<open>Sequencing, \<^verbatim>\<open>try ... except Exception\<close> and \<^verbatim>\<open>try ... finally\<close>.\<close>

definition then_do :: "outcome \<Rightarrow> (state \<Rightarrow> outcome) \<Rightarrow> outcome" where
  "then_do r f = (case r of Inl x \<Rightarrow> Inl x | Inr s \<Rightarrow> f s)"

definition try_except :: "outcome \<Rightarrow> (state \<Rightarrow> outcome) \<Rightarrow> outcome" where
  "try_except r h = (case r of Inl (x, s) \<Rightarrow> h s | Inr s \<Rightarrow> Inr s)"

definition try_finally :: "outcome \<Rightarrow> (state \<Rightarrow> state) \<Rightarrow> outcome" where
  "try_finally r f = (case r of Inl (x, s) \<Rightarrow> Inl (x, f s) | Inr s \<Rightarrow> Inr (f s))"

subsection \<open>SQL statements\<close>

text \<open>\<^verbatim>\<open>SELECT ... FROM users WHERE chat_id=%s\<close> with \<^verbatim>\<open>fetchone\<close>.\<close>

definition select_user :: "int \<Rightarrow> user_row list \<Rightarrow> user_row option" where
  "select_user c us = find (\<lambda>r. u_chat_id r = c) us"

text \<open>\<^verbatim>\<open>UPDATE users SET ... WHERE chat_id=%s\<close> and its \<^verbatim>\<open>rowcount\<close>.\<close>

definition update_users :: "int \<Rightarrow> (user_row \<Rightarrow> user_row) \<Rightarrow> user_row list \<Rightarrow> user_row list" where
  "update_users c f us = map (\<lambda>r. if u_chat_id r = c then f r else r) us"

definition rowcount_users :: "int \<Rightarrow> user_row list \<Rightarrow> nat" where
  "rowcount_users c us = length (filter (\<lambda>r. u_chat_id r = c) us)"

text \<open>\<^verbatim>\<open>UPDATE payments SET ... WHERE\<close> a condition on the row.\<close>

definition update_payments ::
  "(payment_row \<Rightarrow> bool) \<Rightarrow> (payment_row \<Rightarrow> payment_row) \<Rightarrow> payment_row list \<Rightarrow> payment_row list" where
  "update_payments P f ps = map (\<lambda>r. if P r then f r else r) ps"

text \<open>The helper \<^verbatim>\<open>get_user_status\<close> of the source.\<close>

definition get_user_status :: "state \<Rightarrow> int \<Rightarrow> payment_status option" where
  "get_user_status s chat_id = map_option u_payment_status (select_user chat_id (users s))"

subsection \<open>Configuration and keyboards\<close>

definition PAYMENT_ACCOUNTS :: "(str \<times> str) list" where
  "PAYMENT_ACCOUNTS =
     [((lit ''Bank A''), (lit ''Account: 1234567890\<newline>Bank: Example Bank A\<newline>Name: Your Name'')),
      ((lit ''Bank B''), (lit ''Account: 0987654321\<newline>Bank: Example Bank B\<newline>Name: Your Name''))]"

definition main_menu_keyboard :: keyboard where
  "main_menu_keyboard =
     [[(sym_rocket @ (lit '' Choose Package''), (lit ''package_selector''))],
      [(sym_question @ (lit '' Help''), (lit ''help''))]]"

definition back_to_menu :: "(str \<times> str) list" where
  "back_to_menu = [(sym_back @ (lit '' Main Menu''), (lit ''menu''))]"

definition back_to_help :: "(str \<times> str) list" where
  "back_to_help = [(sym_back @ (lit '' Help''), (lit ''help''))]"

subsection \<open>\<^verbatim>\<open>start\<close>\<close>

text \<open>
  The row that \<^verbatim>\<open>start\<close> inserts: \<^verbatim>\<open>chat_id\<close>, \<^verbatim>\<open>username\<close>, \<^verbatim>\<open>name\<close> and
  \<^verbatim>\<open>payment_status\<close> are given, the other columns are \<^verbatim>\<open>NULL\<close>.
\<close>

definition new_user_row :: "int \<Rightarrow> str option \<Rightarrow> str \<Rightarrow> str option \<Rightarrow> payment_status \<Rightarrow> user_row" where
  "new_user_row chat_id username full_name package status =
     \<lparr>u_chat_id = chat_id, u_username = Some (or_empty username), u_name = Some full_name,
      u_email = None, u_phone = None, u_package = package, u_payment_status = status,
      u_approved_at = None, u_registration_date = None\<rparr>"

definition welcome_text :: str where
  "welcome_text =
     (lit ''Welcome! Choose a package to register.\<newline>\<newline>We have:\<newline>'') @ sym_bullet @ (lit '' Standard ('') @ sym_naira
       @ (lit ''9,000)\<newline>'') @ sym_bullet @ (lit '' X ('') @ sym_naira @ (lit ''14,000) '') @ sym_dash
       @ (lit '' gives access to special content.'')"

definition start :: "env \<Rightarrow> int \<Rightarrow> str option \<Rightarrow> str \<Rightarrow> state \<Rightarrow> outcome" where
  "start e chat_id username full_name s =
     (let s1 = (if select_user chat_id (users s) = None
                then s\<lparr>users := users s @ [new_user_row chat_id username full_name None New]\<rparr>
                else s)
      in send e (ReplyText chat_id welcome_text main_menu_keyboard) s1)"

subsection \<open>\<^verbatim>\<open>show_main_menu\<close> and \<^verbatim>\<open>help_menu_cmd\<close>, as \<^verbatim>\<open>button_handler\<close> calls them\<close>

definition show_main_menu :: "env \<Rightarrow> int \<Rightarrow> state \<Rightarrow> outcome" where
  "show_main_menu e chat_id s = send e (EditMessageText chat_id (lit ''Main menu:'') main_menu_keyboard) s"

text \<open>
  \<^verbatim>\<open>help_menu_cmd\<close> replies through \<^verbatim>\<open>update.message\<close>, which is \<^verbatim>\<open>None\<close> in an
  update that carries a callback query: the attribute access raises.
\<close>

definition help_menu_cmd :: "state \<Rightarrow> outcome" where
  "help_menu_cmd s = Inl (AttributeError, s)"

subsection \<open>The branches of \<^verbatim>\<open>button_handler\<close>\<close>

text \<open>\<^verbatim>\<open>reg_standard\<close> and \<^verbatim>\<open>reg_x\<close> (lines 259 to 274).\<close>

definition accounts_keyboard :: keyboard where
  "accounts_keyboard =
     map (\<lambda>name. [(name, (lit ''select_account:'') @ name)]) (map fst PAYMENT_ACCOUNTS) @ [back_to_menu]"

definition reg_package :: "env \<Rightarrow> int \<Rightarrow> str option \<Rightarrow> str \<Rightarrow> str \<Rightarrow> state \<Rightarrow> outcome" where
  "reg_package e uid username full_name data s =
     (let package = (if data = (lit ''reg_standard'') then (lit ''Standard'') else (lit ''X''));
          updated = update_users uid
            (\<lambda>r. r\<lparr>u_package := Some package, u_payment_status := Pending_payment\<rparr>) (users s);
          s1 = (if rowcount_users uid (users s) = 0
                then s\<lparr>users := updated @ [new_user_row uid username full_name (Some package) Pending_payment]\<rparr>
                else s\<lparr>users := updated\<rparr>)
      in send e (EditMessageText uid
           ((lit ''You selected '') @ package @ (lit ''. Choose a payment account and then upload your screenshot.''))
           accounts_keyboard) s1)"

text \<open>\<^verbatim>\<open>select_account:\<close> (lines 275 to 299).\<close>

definition new_payment_row :: "int \<Rightarrow> int \<Rightarrow> str option \<Rightarrow> str \<Rightarrow> int \<Rightarrow> payment_row" where
  "new_payment_row pid uid package account_name ts =
     \<lparr>p_id = pid, p_chat_id = uid, p_package = package, p_payment_account = account_name,
      p_status = Pending, p_timestamp = ts, p_approved_at = None\<rparr>"

text \<open>The text of the last edit of the branch (lines 277 and 299).\<close>

definition payment_details_text :: "str \<Rightarrow> str" where
  "payment_details_text account_name =
     (let payment_details = (case map_of PAYMENT_ACCOUNTS account_name of
            Some d \<Rightarrow> d | None \<Rightarrow> (lit ''Contact admin for payment details.''))
      in (lit ''Payment details:\<newline>\<newline>'') @ payment_details
           @ (lit ''\<newline>\<newline>Please make the payment and upload the screenshot (as a photo) in this chat.''))"

text \<open>
  \<^verbatim>\<open>data.split("select_account:")[1]\<close> raises when the split has one piece only.
  \<^verbatim>\<open>RETURNING id\<close> gives the next value of the sequence.
\<close>

definition select_account :: "env \<Rightarrow> int \<Rightarrow> str \<Rightarrow> state \<Rightarrow> outcome" where
  "select_account e uid data s =
     (case py_split (lit ''select_account:'') data of
        x # account_name # rest \<Rightarrow>
          (let package = (case select_user uid (users s) of Some row \<Rightarrow> u_package row | None \<Rightarrow> None);
               pid = payments_id_seq s + 1;
               s1 = s\<lparr>payments := payments s @ [new_payment_row pid uid package account_name (db_now e)],
                      payments_id_seq := pid,
                      user_state := (user_state s)(uid \<mapsto>
                        \<lparr>expecting = (lit ''reg_screenshot''), payment_id = Some pid, for_user = None\<rparr>)\<rparr>
           in send e (EditMessageText uid (payment_details_text account_name) [back_to_menu]) s1)
      | _ \<Rightarrow> Inl (IndexError, s))"

text \<open>
  The numbers of an approve or reject callback: \<^verbatim>\<open>int(parts[2])\<close> and, when there is a
  fourth part, \<^verbatim>\<open>int(parts[3])\<close>; \<open>None\<close> when one of them raises. The caller has
  checked that there are three parts.
\<close>

definition parse_target :: "(int \<Rightarrow> nat option) \<Rightarrow> str list \<Rightarrow> (int \<times> int option) option" where
  "parse_target dec parts =
     (case py_int dec (parts ! 2) of
        None \<Rightarrow> None
      | Some target_chat \<Rightarrow>
          if length parts > 3
          then (case py_int dec (parts ! 3) of None \<Rightarrow> None | Some pid \<Rightarrow> Some (target_chat, Some pid))
          else Some (target_chat, None))"

text \<open>
  The second \<^verbatim>\<open>try\<close> of the \<^verbatim>\<open>approve_reg_\<close> branch (lines 312 to 323), for the
  parsed \<open>target_chat\<close> and \<open>payment_id\<close>; \<open>chat_id\<close> is the actor who pressed the
  button.
\<close>

definition approve_reg :: "env \<Rightarrow> int \<Rightarrow> int \<Rightarrow> int option \<Rightarrow> state \<Rightarrow> outcome" where
  "approve_reg e chat_id target_chat pid s =
     (let s1 = (if truthy pid
                then s\<lparr>payments := update_payments (\<lambda>r. Some (p_id r) = pid)
                        (\<lambda>r. r\<lparr>p_status := Attempt_approved, p_approved_at := Some (now e 0)\<rparr>) (payments s)\<rparr>
                else s);
          s2 = s1\<lparr>users := update_users target_chat
                 (\<lambda>r. r\<lparr>u_payment_status := Approved,
                        u_approved_at := Some (now e (if truthy pid then 1 else 0))\<rparr>) (users s1)\<rparr>
      in try_except
           (then_do
              (send e (SendMessage target_chat
                 (sym_check @ (lit '' Your payment has been approved by the admin. Await credentials to complete registration.''))
                 []) s2)
              (send e (EditMessageText chat_id
                 (lit ''Payment approved. Please finalize the user credentials using the button below.'')
                 [[((lit ''Finalize Registration (Admin)''), (lit ''finalize_reg_'') @ py_str target_chat)]])))
           (send e (EditMessageText chat_id (lit ''Error approving registration. See logs.'') [])))"

definition approve_branch :: "env \<Rightarrow> int \<Rightarrow> str \<Rightarrow> state \<Rightarrow> outcome" where
  "approve_branch e chat_id data s =
     (let parts = py_split (lit ''_'') data in
      if length parts \<ge> 3 then
        (case parse_target (unicode_decimal e) parts of
           None \<Rightarrow> send e (EditMessageText chat_id (lit ''Invalid approval data.'') []) s
         | Some (target_chat, pid) \<Rightarrow> approve_reg e chat_id target_chat pid s)
      else send e (EditMessageText chat_id (lit ''Malformed approval callback.'') []) s)"

text \<open>The second \<^verbatim>\<open>try\<close> of the \<^verbatim>\<open>reject_reg_\<close> branch (lines 336 to 345).\<close>

definition reject_reg :: "env \<Rightarrow> int \<Rightarrow> int \<Rightarrow> int option \<Rightarrow> state \<Rightarrow> outcome" where
  "reject_reg e chat_id target_chat pid s =
     (let s1 = (if truthy pid
                then s\<lparr>payments := update_payments (\<lambda>r. Some (p_id r) = pid)
                        (\<lambda>r. r\<lparr>p_status := Rejected\<rparr>) (payments s)\<rparr>
                else s);
          s2 = s1\<lparr>users := update_users target_chat (\<lambda>r. r\<lparr>u_payment_status := New\<rparr>) (users s1)\<rparr>
      in try_except
           (then_do
              (send e (SendMessage target_chat
                 (sym_cross @ (lit '' Your payment was not approved. Please try again or contact the admin.'')) []) s2)
              (send e (EditMessageText chat_id (lit ''Payment rejected and user notified.'') [])))
           (send e (EditMessageText chat_id (lit ''Error rejecting registration. See logs.'') [])))"

definition reject_branch :: "env \<Rightarrow> int \<Rightarrow> str \<Rightarrow> state \<Rightarrow> outcome" where
  "reject_branch e chat_id data s =
     (let parts = py_split (lit ''_'') data in
      if length parts \<ge> 3 then
        (case parse_target (unicode_decimal e) parts of
           None \<Rightarrow> send e (EditMessageText chat_id (lit ''Invalid rejection data.'') []) s
         | Some (target_chat, pid) \<Rightarrow> reject_reg e chat_id target_chat pid s)
      else send e (EditMessageText chat_id (lit ''Malformed rejection callback.'') []) s)"

text \<open>The \<^verbatim>\<open>finalize_reg_\<close> branch after \<^verbatim>\<open>int(parts[2])\<close> (lines 353 to 356).\<close>

definition finalize_reg :: "env \<Rightarrow> int \<Rightarrow> int \<Rightarrow> state \<Rightarrow> outcome" where
  "finalize_reg e chat_id target_chat s =
     (let s1 = s\<lparr>user_state := (user_state s)(ADMIN_ID e \<mapsto>
                 \<lparr>expecting = (lit ''user_credentials''), payment_id = None, for_user = Some target_chat\<rparr>)\<rparr>
      in then_do
           (send e (SendMessage (ADMIN_ID e)
              ((lit ''Send username and password for user '') @ py_str target_chat
                 @ (lit '' in two lines:\<newline>username\<newline>password'')) []) s1)
           (send e (EditMessageText chat_id (lit ''Waiting for admin to send credentials.'') [])))"

definition finalize_branch :: "env \<Rightarrow> int \<Rightarrow> str \<Rightarrow> state \<Rightarrow> outcome" where
  "finalize_branch e chat_id data s =
     (let parts = py_split (lit ''_'') data in
      if length parts \<ge> 3 then
        (case py_int (unicode_decimal e) (parts ! 2) of
           None \<Rightarrow> Inl (ValueError, s)
         | Some target_chat \<Rightarrow> finalize_reg e chat_id target_chat s)
      else send e (EditMessageText chat_id (lit ''Malformed finalize command.'') []) s)"

subsection \<open>\<^verbatim>\<open>button_handler\<close>\<close>

text \<open>The \<^verbatim>\<open>if ... elif\<close> chain inside the outer \<^verbatim>\<open>try\<close>, in the order of the source.\<close>

definition button_dispatch :: "env \<Rightarrow> int \<Rightarrow> str option \<Rightarrow> str \<Rightarrow> str \<Rightarrow> state \<Rightarrow> outcome" where
  "button_dispatch e chat_id username full_name data s =
     (if data = (lit ''menu'') then show_main_menu e chat_id s
      else if data = (lit ''help'') then help_menu_cmd s
      else if data = (lit ''how_to_pay'') then
        send e (EditMessageText chat_id
          (lit ''Make payment to any of the accounts shown when you pick a package. Upload a screenshot after payment.'')
          [back_to_help]) s
      else if data = (lit ''registration_process'') then
        send e (EditMessageText chat_id
          ((lit ''1. /start '') @ sym_arrow @ (lit '' choose package\<newline>2. Select a payment account\<newline>3. Upload your payment screenshot\<newline>4. Wait for admin approval and credential assignment.''))
          [back_to_help]) s
      else if data = (lit ''package_selector'') then
        send e (EditMessageText chat_id (lit ''Choose your package:'')
          [[((lit ''Standard ('') @ sym_naira @ (lit ''9,000)''), (lit ''reg_standard''))],
           [((lit ''X ('') @ sym_naira @ (lit ''14,000)''), (lit ''reg_x''))],
           back_to_menu]) s
      else if data = (lit ''reg_standard'') \<or> data = (lit ''reg_x'') then reg_package e chat_id username full_name data s
      else if startswith data (lit ''select_account:'') then select_account e chat_id data s
      else if startswith data (lit ''approve_reg_'') then approve_branch e chat_id data s
      else if startswith data (lit ''reject_reg_'') then reject_branch e chat_id data s
      else if startswith data (lit ''finalize_reg_'') then finalize_branch e chat_id data s
      else send e (EditMessageText chat_id (lit ''Unknown action.'') []) s)"

text \<open>
  \<^verbatim>\<open>query.answer()\<close> stands before the outer \<^verbatim>\<open>try\<close>, so its exception leaves the
  handler. An exception of the chain is answered by one more edit, whose own
  exception is passed over.
\<close>

definition button_handler :: "env \<Rightarrow> int \<Rightarrow> str option \<Rightarrow> str \<Rightarrow> str \<Rightarrow> state \<Rightarrow> outcome" where
  "button_handler e chat_id username full_name data s =
     then_do (send e (Answer chat_id) s)
       (\<lambda>s1. try_except (button_dispatch e chat_id username full_name data s1)
          (\<lambda>s2. Inr (state_of (send e (EditMessageText chat_id (lit ''An error occurred. Contact admin.'') []) s2))))"

subsection \<open>\<^verbatim>\<open>handle_photo\<close>\<close>

definition expecting_of :: "session option \<Rightarrow> str option" where
  "expecting_of st = map_option expecting st"

definition payment_id_of :: "session option \<Rightarrow> int option" where
  "payment_id_of st = (case st of None \<Rightarrow> None | Some ss \<Rightarrow> payment_id ss)"

definition for_user_of :: "session option \<Rightarrow> int option" where
  "for_user_of st = (case st of None \<Rightarrow> None | Some ss \<Rightarrow> for_user ss)"

text \<open>An optional integer in an f-str.\<close>

definition str_opt :: "int option \<Rightarrow> str" where
  "str_opt v = (case v of None \<Rightarrow> (lit ''None'') | Some n \<Rightarrow> py_str n)"

definition review_keyboard :: "int \<Rightarrow> int option \<Rightarrow> keyboard" where
  "review_keyboard uid pid =
     [[((lit ''Approve''), (lit ''approve_reg_'') @ py_str uid @ (lit ''_'') @ str_opt pid),
       ((lit ''Reject''), (lit ''reject_reg_'') @ py_str uid @ (lit ''_'') @ str_opt pid)],
      [((lit ''Finalize (set credentials)''), (lit ''finalize_reg_'') @ py_str uid)]]"

text \<open>The photo for the administrator (lines 393 to 398) and the reply to the actor (line 400).\<close>

definition admin_photo :: "env \<Rightarrow> int \<Rightarrow> str option \<Rightarrow> str list \<Rightarrow> int option \<Rightarrow> out_msg" where
  "admin_photo e uid username photo pid =
     SendPhoto (ADMIN_ID e) (last photo)
       ((lit ''Payment screenshot from @'')
          @ (if or_empty username = [] then py_str uid else or_empty username)
          @ (lit '' (chat_id: '') @ py_str uid @ (lit '')''))
       (review_keyboard uid pid)"

definition screenshot_received :: "int \<Rightarrow> out_msg" where
  "screenshot_received uid =
     ReplyText uid (sym_check @ (lit '' Screenshot received! Admin will review and get back to you.'')) []"

definition no_payment_process :: "int \<Rightarrow> out_msg" where
  "no_payment_process uid =
     ReplyText uid (lit ''No payment process detected. Start with /start to register.'') []"

text \<open>
  \<open>photo\<close> is the list of the file ids of \<^verbatim>\<open>msg.photo\<close>; \<^verbatim>\<open>msg.photo[-1]\<close> raises on
  the empty list.
\<close>

definition handle_photo :: "env \<Rightarrow> int \<Rightarrow> str option \<Rightarrow> str list \<Rightarrow> state \<Rightarrow> outcome" where
  "handle_photo e uid username photo s =
     (let st = user_state s uid in
      if expecting_of st \<noteq> Some (lit ''reg_screenshot'') then send e (no_payment_process uid) s
      else
        try_except
          (if photo = [] then Inl (IndexError, s)
           else
             then_do (send e (admin_photo e uid username photo (payment_id_of st)) s)
               (\<lambda>s1. then_do (send e (screenshot_received uid) s1)
                  (\<lambda>s2. Inr (s2\<lparr>users := update_users uid
                                   (\<lambda>r. r\<lparr>u_payment_status := Pending_approval\<rparr>) (users s2),
                                 user_state := (user_state s2)(uid := None)\<rparr>))))
          (send e (ReplyText uid (lit ''Error processing screenshot. Try again later.'') [])))"

subsection \<open>\<^verbatim>\<open>handle_text\<close>\<close>

text \<open>\<^verbatim>\<open>[l.strip() for l in text.splitlines() if l.strip()]\<close>\<close>

definition cred_lines :: "str \<Rightarrow> str list" where
  "cred_lines text = map strip (filter (\<lambda>l. strip l \<noteq> []) (splitlines text))"

definition pop_admin :: "env \<Rightarrow> state \<Rightarrow> state" where
  "pop_admin e s = s\<lparr>user_state := (user_state s)(ADMIN_ID e := None)\<rparr>"

text \<open>The message that carries the credentials (line 446).\<close>

definition credentials_text :: "str \<Rightarrow> str \<Rightarrow> str" where
  "credentials_text username password =
     sym_party @ (lit '' Registration complete!\<newline>Username: '') @ username
       @ (lit ''\<newline>Password: '') @ password @ (lit ''\<newline>\<newline>Welcome!'')"

text \<open>The \<^verbatim>\<open>try\<close> of the credential flow (lines 434 to 452).\<close>

definition set_credentials :: "env \<Rightarrow> int \<Rightarrow> int \<Rightarrow> str \<Rightarrow> str \<Rightarrow> state \<Rightarrow> outcome" where
  "set_credentials e uid target username password s =
     (let s1 = s\<lparr>users := update_users target
                  (\<lambda>r. r\<lparr>u_username := Some username, u_payment_status := Registered,
                         u_registration_date := Some (now e 0)\<rparr>) (users s),
                payments := update_payments (\<lambda>r. p_chat_id r = target \<and> p_status r = Pending)
                  (\<lambda>r. r\<lparr>p_status := Attempt_approved, p_approved_at := Some (now e 1)\<rparr>) (payments s)\<rparr>
      in try_finally
           (try_except
              (then_do
                 (send e (SendMessage target (credentials_text username password) []) s1)
                 (send e (ReplyText uid ((lit ''Credentials set and sent to user '') @ py_str target @ (lit ''.'')) [])))
              (send e (ReplyText uid (lit ''Failed to set credentials. See logs.'') [])))
           (pop_admin e))"

definition two_lines_please :: "int \<Rightarrow> out_msg" where
  "two_lines_please uid =
     ReplyText uid (lit ''Please send credentials in two lines:\<newline>username\<newline>password'') []"

definition no_target_user :: "int \<Rightarrow> out_msg" where
  "no_target_user uid =
     ReplyText uid (lit ''No target user set. Use the finalize button on a payment message.'') []"

definition handle_text :: "env \<Rightarrow> int \<Rightarrow> str \<Rightarrow> state \<Rightarrow> outcome" where
  "handle_text e uid raw s =
     (let text = strip raw; admin_state = user_state s (ADMIN_ID e) in
      if uid = ADMIN_ID e \<and> expecting_of admin_state = Some (lit ''user_credentials'') then
        (let lines = cred_lines text in
         if length lines < 2 then
           send e (two_lines_please uid) s
         else
           (let username = lines ! 0; password = lines ! 1;
                no_target = then_do (send e (no_target_user uid) s) (\<lambda>s1. Inr (pop_admin e s1))
            in case for_user_of admin_state of
                 None \<Rightarrow> no_target
               | Some target \<Rightarrow>
                   if target = 0 then no_target
                   else set_credentials e uid target username password s))
      else
        send e (ReplyText uid
          (lit ''I didn't understand that. Use /start to begin registration or /help for assistance.'') []) s)"

subsection \<open>The application\<close>

text \<open>
  The updates that \<^verbatim>\<open>main\<close> registers a handler for: the command \<^verbatim>\<open>/start\<close>, a
  callback query, a photo and a text that is not a command. Each carries the id of
  the actor; a callback query carries its data.
\<close>

datatype update =
    Start int "str option" str
  | Button int "str option" str str
  | Photo int "str option" "str list"
  | Text int str

fun handle :: "env \<Rightarrow> update \<Rightarrow> state \<Rightarrow> outcome" where
  "handle e (Start chat_id username full_name) s = start e chat_id username full_name s"
| "handle e (Button chat_id username full_name data) s = button_handler e chat_id username full_name data s"
| "handle e (Photo uid username photo) s = handle_photo e uid username photo s"
| "handle e (Text uid raw) s = handle_text e uid raw s"

text \<open>
  The application takes the updates one after the other; an exception that leaves
  a handler is logged by the framework and the next update finds the state as the
  handler left it.
\<close>

fun run :: "env \<Rightarrow> update list \<Rightarrow> state \<Rightarrow> state" where
  "run e [] s = s"
| "run e (u # us) s = run e us (state_of (handle e u s))"

text \<open>Empty tables, a fresh sequence, no session, nothing sent.\<close>

definition init_state :: state where
  "init_state = \<lparr>users = [], payments = [], payments_id_seq = 0,
                  user_state = (\<lambda>c. None), outbox = []\<rparr>"

subsection \<open>Notions used in the statements\<close>

text \<open>
  The position of a status in the order that the schema comment of
  \<^verbatim>\<open>users.payment_status\<close> lists: new, pending_payment, pending_approval, approved,
  registered.
\<close>

fun status_rank :: "payment_status \<Rightarrow> nat" where
  "status_rank New = 0"
| "status_rank Pending_payment = 1"
| "status_rank Pending_approval = 2"
| "status_rank Approved = 3"
| "status_rank Registered = 4"

text \<open>
  The actor that the data of an approve or reject callback names, as the handler
  parses it.
\<close>

definition callback_target :: "env \<Rightarrow> str \<Rightarrow> int option" where
  "callback_target e data =
     (let parts = py_split (lit ''_'') data in
      if length parts \<ge> 3 then map_option fst (parse_target (unicode_decimal e) parts) else None)"

text \<open>
  The status that the handler of an update writes to the row of the user \<open>c\<close>,
  without reading the current one, when it handles the update in the state \<open>s\<close>:
  \<^item> a package button that \<open>c\<close> presses writes \<^verbatim>\<open>pending_payment\<close> (line 264);
  \<^item> an approve callback that names \<open>c\<close> writes \<^verbatim>\<open>approved\<close> (line 316), a reject
    callback that names \<open>c\<close> writes \<^verbatim>\<open>new\<close> (line 339);
  \<^item> a photo of \<open>c\<close> writes \<^verbatim>\<open>pending_approval\<close> (line 402).

  The write of a button is reached when the button press has been acknowledged
  (line 234); the write of a photo is reached when the session of \<open>c\<close> expects the
  screenshot, the message has a photo, and the photo for the administrator and the
  reply to \<open>c\<close> have been delivered (lines 378 to 400). \<open>None\<close>: the handler reaches no
  such write for \<open>c\<close>.
\<close>

fun written_status :: "env \<Rightarrow> update \<Rightarrow> state \<Rightarrow> int \<Rightarrow> payment_status option" where
  "written_status e (Button chat_id username full_name data) s c =
     (if deliver e (Answer chat_id) then
        (if data = lit ''reg_standard'' \<or> data = lit ''reg_x''
         then (if chat_id = c then Some Pending_payment else None)
         else if startswith data (lit ''approve_reg_'')
         then (if callback_target e data = Some c then Some Approved else None)
         else if startswith data (lit ''reject_reg_'')
         then (if callback_target e data = Some c then Some New else None)
         else None)
      else None)"
| "written_status e (Photo uid username photo) s c =
     (if uid = c \<and> expecting_of (user_state s uid) = Some (lit ''reg_screenshot'') \<and> photo \<noteq> []
         \<and> deliver e (admin_photo e uid username photo (payment_id_of (user_state s uid)))
         \<and> deliver e (screenshot_received uid)
      then Some Pending_approval else None)"
| "written_status e (Start chat_id username full_name) s c = None"
| "written_status e (Text uid raw) s c = None"

text \<open>\<open>contains s t\<close>: the text \<open>t\<close> occurs in \<open>s\<close>.\<close>

fun contains :: "str \<Rightarrow> str \<Rightarrow> bool" where
  "contains [] t = (t = [])"
| "contains (c # cs) t = (startswith (c # cs) t \<or> contains cs t)"

text \<open>The durable state: the two tables and the sequence of \<^verbatim>\<open>payments.id\<close>.\<close>

definition store :: "state \<Rightarrow> user_row list \<times> payment_row list \<times> int" where
  "store s = (users s, payments s, payments_id_seq s)"

text \<open>The rows of one actor.\<close>

definition users_of :: "state \<Rightarrow> int \<Rightarrow> user_row list" where
  "users_of s c = filter (\<lambda>r. u_chat_id r = c) (users s)"

definition payments_of :: "state \<Rightarrow> int \<Rightarrow> payment_row list" where
  "payments_of s c = filter (\<lambda>r. p_chat_id r = c) (payments s)"

subsection \<open>Scenarios\<close>

text \<open>
  An environment with administrator 1 in which every message is delivered; of the
  decimal digits beyond ASCII it knows the Arabic-Indic and the fullwidth ones.
\<close>

definition env1 :: env where
  "env1 = \<lparr>ADMIN_ID = 1, now = (\<lambda>k. 100 + int k), db_now = 50, deliver = (\<lambda>m. True),
            unicode_decimal = (\<lambda>c. if 0x660 \<le> c \<and> c \<le> 0x669 then Some (nat (c - 0x660))
                                  else if 0xFF10 \<le> c \<and> c \<le> 0xFF19 then Some (nat (c - 0xFF10))
                                  else None)\<rparr>"

text \<open>The same environment, except that no message at all is delivered.\<close>

definition env_silent :: env where
  "env_silent = env1\<lparr>deliver := (\<lambda>m. False)\<rparr>"

text \<open>
  The same environment, except that only the acknowledgement of a button press is
  delivered.
\<close>

definition env_answer_only :: env where
  "env_answer_only = env1\<lparr>deliver := (\<lambda>m. case m of Answer c \<Rightarrow> True | _ \<Rightarrow> False)\<rparr>"

text \<open>The same environment, except that no photo reaches the administrator.\<close>

definition env_photo_lost :: env where
  "env_photo_lost = env1\<lparr>deliver := (\<lambda>m. case m of SendPhoto c f t k \<Rightarrow> False | _ \<Rightarrow> True)\<rparr>"

text \<open>
  Actor 7 enters, chooses the package Standard and selects the account Bank A; then
  the actor uploads a screenshot.
\<close>

definition upto_account :: "update list" where
  "upto_account =
     [Start 7 (Some (lit ''al'')) (lit ''Al Ice''),
      Button 7 (Some (lit ''al'')) (lit ''Al Ice'') (lit ''reg_standard''),
      Button 7 (Some (lit ''al'')) (lit ''Al Ice'') (lit ''select_account:Bank A'')]"

definition upto_screenshot :: "update list" where
  "upto_screenshot = upto_account @ [Photo 7 (Some (lit ''al'')) [(lit ''small''), (lit ''large'')]]"

text \<open>
  The administrator presses Approve under the screenshot, presses the finalize
  button and sends the credentials.
\<close>

definition upto_finalize :: "update list" where
  "upto_finalize =
     upto_screenshot @
     [Button 1 None (lit ''Admin'') (lit ''approve_reg_7_1''),
      Button 1 None (lit ''Admin'') (lit ''finalize_reg_7'')]"

definition upto_registered :: "update list" where
  "upto_registered = upto_finalize @ [Text 1 (lit ''alice\<newline>Secret1'')]"

text \<open>The same without the finalize button.\<close>

definition without_finalize :: "update list" where
  "without_finalize =
     upto_screenshot @
     [Button 1 None (lit ''Admin'') (lit ''approve_reg_7_1''),
      Text 1 (lit ''alice\<newline>Secret1'')]"

text \<open>The states that these updates lead to from the empty store.\<close>

definition st_account :: state where
  "st_account = run env1 upto_account init_state"

definition st_screenshot :: state where
  "st_screenshot = run env1 upto_screenshot init_state"

definition st_finalize :: state where
  "st_finalize = run env1 upto_finalize init_state"

definition st_registered :: state where
  "st_registered = run env1 upto_registered init_state"


text \<open>
  The registration of an actor \<open>c\<close> from first contact to the credentials: the actor
  enters, chooses Standard, selects Bank A and uploads a photo; the administrator
  presses the Approve button of the photo message for payment 1, presses the
  finalize button and sends two lines.
\<close>

definition registration ::
  "env \<Rightarrow> int \<Rightarrow> str option \<Rightarrow> str \<Rightarrow> str list \<Rightarrow> str option \<Rightarrow> str \<Rightarrow> update list" where
  "registration e c username full_name photo admin_username admin_name =
     [Start c username full_name,
      Button c username full_name (lit ''reg_standard''),
      Button c username full_name (lit ''select_account:Bank A''),
      Photo c username photo,
      Button (ADMIN_ID e) admin_username admin_name ((lit ''approve_reg_'') @ py_str c @ (lit ''_'') @ py_str 1),
      Button (ADMIN_ID e) admin_username admin_name ((lit ''finalize_reg_'') @ py_str c),
      Text (ADMIN_ID e) (lit ''alice\<newline>Secret1'')]"

text \<open>A second actor enters after actor 7 has selected an account.\<close>

definition st_two_actors :: state where
  "st_two_actors = run env1 (upto_account @ [Start 8 None (lit ''Bo'')]) init_state"

definition st_without_finalize :: state where
  "st_without_finalize = run env1 without_finalize init_state"

section \<open>Properties\<close>

subsection \<open>Literals\<close>

lemma lit_eq_iff [simp]: "lit a = lit b \<longleftrightarrow> a = b"
proof -
  have "inj (of_char :: char \<Rightarrow> int)"
    by (rule injI) simp
  then show ?thesis
    by (simp add: lit_def inj_map_eq_map)
qed

lemma length_lit [simp]: "length (lit a) = length a"
  by (simp add: lit_def)

lemma take_lit [simp]: "take n (lit a) = lit (take n a)"
  by (simp add: lit_def take_map)

lemma lit_append: "lit (a @ b) = lit a @ lit b"
  by (simp add: lit_def)

subsection \<open>The store after each handler\<close>

lemmas outcome_defs = send_def then_do_def try_except_def try_finally_def state_of_def

text \<open>What each branch writes to the store.\<close>

lemma state_of_simps [simp]: "state_of (Inl (x, s)) = s" "state_of (Inr s) = s"
  by (simp_all add: state_of_def)

lemma store_send [simp]: "store (state_of (send e m s)) = store s"
  by (simp add: store_def outcome_defs)

lemma user_state_send [simp]: "user_state (state_of (send e m s)) = user_state s"
  by (simp add: outcome_defs)

lemma store_outbox [simp]: "store (s\<lparr>outbox := b\<rparr>) = store s"
  by (simp add: store_def)

lemma store_start:
  "store (state_of (start e chat_id username full_name s)) =
     ((if select_user chat_id (users s) = None
       then users s @ [new_user_row chat_id username full_name None New] else users s),
      payments s, payments_id_seq s)"
  by (simp add: start_def Let_def store_def outcome_defs)

lemma store_show_main_menu: "store (state_of (show_main_menu e chat_id s)) = store s"
  by (simp add: show_main_menu_def)

lemma store_help_menu_cmd: "store (state_of (help_menu_cmd s)) = store s"
  by (simp add: help_menu_cmd_def)

lemma store_reg_package:
  "store (state_of (reg_package e uid username full_name data s)) =
     ((let package = (if data = (lit ''reg_standard'') then (lit ''Standard'') else (lit ''X''));
           updated = update_users uid
             (\<lambda>r. r\<lparr>u_package := Some package, u_payment_status := Pending_payment\<rparr>) (users s)
       in if rowcount_users uid (users s) = 0
          then updated @ [new_user_row uid username full_name (Some package) Pending_payment]
          else updated),
      payments s, payments_id_seq s)"
  by (simp add: reg_package_def Let_def store_def outcome_defs)

lemma store_select_account:
  "store (state_of (select_account e uid data s)) =
     (case py_split (lit ''select_account:'') data of
        x # account_name # rest \<Rightarrow>
          (users s,
           payments s @ [new_payment_row (payments_id_seq s + 1) uid
              (case select_user uid (users s) of Some row \<Rightarrow> u_package row | None \<Rightarrow> None)
              account_name (db_now e)],
           payments_id_seq s + 1)
      | _ \<Rightarrow> store s)"
  by (simp add: select_account_def Let_def store_def outcome_defs split: list.splits)

lemma store_approve_reg:
  "store (state_of (approve_reg e chat_id target_chat pid s)) =
     (update_users target_chat
        (\<lambda>r. r\<lparr>u_payment_status := Approved,
               u_approved_at := Some (now e (if truthy pid then 1 else 0))\<rparr>) (users s),
      (if truthy pid
       then update_payments (\<lambda>r. Some (p_id r) = pid)
              (\<lambda>r. r\<lparr>p_status := Attempt_approved, p_approved_at := Some (now e 0)\<rparr>) (payments s)
       else payments s),
      payments_id_seq s)"
  by (simp add: approve_reg_def Let_def store_def outcome_defs)

lemma store_reject_reg:
  "store (state_of (reject_reg e chat_id target_chat pid s)) =
     (update_users target_chat (\<lambda>r. r\<lparr>u_payment_status := New\<rparr>) (users s),
      (if truthy pid
       then update_payments (\<lambda>r. Some (p_id r) = pid) (\<lambda>r. r\<lparr>p_status := Rejected\<rparr>) (payments s)
       else payments s),
      payments_id_seq s)"
  by (simp add: reject_reg_def Let_def store_def outcome_defs)

lemma store_finalize_reg: "store (state_of (finalize_reg e chat_id target_chat s)) = store s"
  by (simp add: finalize_reg_def Let_def store_def outcome_defs)

lemma store_approve_branch:
  "store (state_of (approve_branch e chat_id data s)) =
     (let parts = py_split (lit ''_'') data in
      if length parts \<ge> 3 then
        (case parse_target (unicode_decimal e) parts of
           None \<Rightarrow> store s
         | Some (target_chat, pid) \<Rightarrow> store (state_of (approve_reg e chat_id target_chat pid s)))
      else store s)"
  by (simp add: approve_branch_def Let_def split: option.splits)

lemma store_reject_branch:
  "store (state_of (reject_branch e chat_id data s)) =
     (let parts = py_split (lit ''_'') data in
      if length parts \<ge> 3 then
        (case parse_target (unicode_decimal e) parts of
           None \<Rightarrow> store s
         | Some (target_chat, pid) \<Rightarrow> store (state_of (reject_reg e chat_id target_chat pid s)))
      else store s)"
  by (simp add: reject_branch_def Let_def split: option.splits)

lemma store_finalize_branch: "store (state_of (finalize_branch e chat_id data s)) = store s"
  by (simp add: finalize_branch_def Let_def store_finalize_reg split: option.splits)

lemma store_set_credentials:
  "store (state_of (set_credentials e uid target username password s)) =
     (update_users target
        (\<lambda>r. r\<lparr>u_username := Some username, u_payment_status := Registered,
               u_registration_date := Some (now e 0)\<rparr>) (users s),
      update_payments (\<lambda>r. p_chat_id r = target \<and> p_status r = Pending)
        (\<lambda>r. r\<lparr>p_status := Attempt_approved, p_approved_at := Some (now e 1)\<rparr>) (payments s),
      payments_id_seq s)"
  by (simp add: set_credentials_def Let_def store_def outcome_defs pop_admin_def)

lemma store_handle_text:
  "store (state_of (handle_text e uid raw s)) =
     (if uid = ADMIN_ID e \<and> expecting_of (user_state s (ADMIN_ID e)) = Some (lit ''user_credentials'')
         \<and> 2 \<le> length (cred_lines (strip raw)) \<and> truthy (for_user_of (user_state s (ADMIN_ID e)))
      then (case for_user_of (user_state s (ADMIN_ID e)) of
              Some target \<Rightarrow> store (state_of (set_credentials e uid target
                 (cred_lines (strip raw) ! 0) (cred_lines (strip raw) ! 1) s))
            | None \<Rightarrow> store s)
      else store s)"
  apply (simp add: handle_text_def Let_def truthy_def split: option.splits)
  apply (simp add: outcome_defs pop_admin_def store_def)
  done

lemma store_button_dispatch:
  "store (state_of (button_dispatch e chat_id username full_name data s)) =
     (if data = (lit ''menu'') \<or> data = (lit ''help'') \<or> data = (lit ''how_to_pay'') \<or> data = (lit ''registration_process'')
         \<or> data = (lit ''package_selector'') then store s
      else if data = (lit ''reg_standard'') \<or> data = (lit ''reg_x'')
        then store (state_of (reg_package e chat_id username full_name data s))
      else if startswith data (lit ''select_account:'') then store (state_of (select_account e chat_id data s))
      else if startswith data (lit ''approve_reg_'') then store (state_of (approve_branch e chat_id data s))
      else if startswith data (lit ''reject_reg_'') then store (state_of (reject_branch e chat_id data s))
      else store s)"
  by (simp add: button_dispatch_def store_show_main_menu store_help_menu_cmd store_finalize_branch)

lemma store_button_handler:
  "store (state_of (button_handler e chat_id username full_name data s)) =
     (if deliver e (Answer chat_id)
      then store (state_of (button_dispatch e chat_id username full_name data
             (s\<lparr>outbox := outbox s @ [Answer chat_id]\<rparr>)))
      else store s)"
  by (cases "button_dispatch e chat_id username full_name data (s\<lparr>outbox := outbox s @ [Answer chat_id]\<rparr>)")
     (auto simp add: button_handler_def outcome_defs store_def)

lemma get_user_status_send [simp]:
  "get_user_status (state_of (send e m s)) c = get_user_status s c"
  by (simp add: get_user_status_def outcome_defs)

lemma store_handle_photo:
  assumes "expecting_of (user_state s uid) = Some (lit ''reg_screenshot'')"
  shows "(if photo \<noteq> [] \<and> deliver e (admin_photo e uid username photo (payment_id_of (user_state s uid)))
             \<and> deliver e (screenshot_received uid)
          then store (state_of (handle_photo e uid username photo s))
                 = (update_users uid (\<lambda>r. r\<lparr>u_payment_status := Pending_approval\<rparr>) (users s),
                    payments s, payments_id_seq s)
             \<and> user_state (state_of (handle_photo e uid username photo s)) = (user_state s)(uid := None)
          else store (state_of (handle_photo e uid username photo s)) = store s
             \<and> user_state (state_of (handle_photo e uid username photo s)) = user_state s)"
  using assms by (simp add: handle_photo_def Let_def outcome_defs store_def)

subsection \<open>Rendering and parsing integers\<close>

lemma digit_val_digit_char: "d < 10 \<Longrightarrow> digit_val (digit_char d) = Some d"
  by (simp add: digit_val_def digit_char_def)

lemma digit_char_props:
  "d < 10 \<Longrightarrow> \<not> c_space (digit_char d) \<and> digit_char d < 127 \<and> digit_char d \<noteq> 95
     \<and> digit_char d \<noteq> 45 \<and> digit_char d \<noteq> 43"
  by (simp add: c_space_def digit_char_def)

lemma digits_val_append:
  "digits_val acc (xs @ ys) = (case digits_val acc xs of None \<Rightarrow> None | Some a \<Rightarrow> digits_val a ys)"
  by (induction xs arbitrary: acc) (auto split: option.splits)

lemma digits_val_str_nat: "digits_val 0 (str_nat n) = Some n"
proof (induction n rule: str_nat.induct)
  case (1 n)
  show ?case
  proof (cases "n < 10")
    case True
    then show ?thesis
      by (subst str_nat.simps) (simp add: digit_val_digit_char)
  next
    case False
    then have "digits_val 0 (str_nat (n div 10)) = Some (n div 10)"
      using "1.IH" by simp
    with False show ?thesis
      by (subst str_nat.simps) (simp add: digits_val_append digit_val_digit_char)
  qed
qed

lemma str_nat_chars: "c \<in> set (str_nat n) \<Longrightarrow> \<exists>d<10. c = digit_char d"
proof (induction n rule: str_nat.induct)
  case (1 n)
  show ?case
  proof (cases "n < 10")
    case True
    with "1.prems" show ?thesis
      by (subst (asm) str_nat.simps) auto
  next
    case False
    with "1.prems" have "c \<in> set (str_nat (n div 10)) \<or> c = digit_char (n mod 10)"
      by (subst (asm) str_nat.simps) auto
    with False "1.IH" show ?thesis
      by (metis mod_less_divisor zero_less_numeral)
  qed
qed

lemma str_nat_not_Nil: "str_nat n \<noteq> []"
  by (subst str_nat.simps) simp

lemma trim_unchanged:
  assumes "xs \<noteq> []" and "\<forall>c\<in>set xs. \<not> P c"
  shows "rev (dropWhile P (rev (dropWhile P xs))) = xs"
proof -
  from assms have "dropWhile P xs = xs"
    by (cases xs) auto
  moreover from assms have "dropWhile P (rev xs) = rev xs"
    by (cases "rev xs") auto
  ultimately show ?thesis by simp
qed

lemma py_str_chars:
  "c \<in> set (py_str i) \<Longrightarrow> \<not> c_space c \<and> c < 127 \<and> c \<noteq> 95"
  by (auto simp: py_str_def c_space_def dest!: str_nat_chars digit_char_props split: if_splits)

lemma py_str_not_Nil: "py_str i \<noteq> []"
  by (simp add: py_str_def str_nat_not_Nil)

lemma asciify_py_str: "map (asciify dec) (py_str i) = py_str i"
  by (rule map_idI) (auto simp: asciify_def dest: py_str_chars)

lemma py_int_py_str: "py_int dec (py_str i) = Some i"
proof -
  have s: "rev (dropWhile c_space (rev (dropWhile c_space (map (asciify dec) (py_str i))))) = py_str i"
    unfolding asciify_py_str
    by (rule trim_unchanged) (auto simp: py_str_not_Nil dest: py_str_chars)
  show ?thesis
  proof (cases "i < 0")
    case True
    then show ?thesis
      unfolding py_int_def s by (simp add: py_str_def str_nat_not_Nil digits_val_str_nat)
  next
    case False
    obtain c cs where cs: "str_nat (nat i) = c # cs"
      using str_nat_not_Nil by (cases "str_nat (nat i)") auto
    then have "c \<in> set (str_nat (nat i))" by simp
    then have "c \<noteq> 45 \<and> c \<noteq> 43"
      by (auto dest!: str_nat_chars digit_char_props)
    moreover have "digits_val 0 (c # cs) = Some (nat i)"
      using digits_val_str_nat [of "nat i"] cs by simp
    ultimately show ?thesis
      using False cs unfolding py_int_def s by (simp add: py_str_def)
  qed
qed

subsection \<open>Splitting callback data\<close>

lemma startswith_underscore: "startswith (c # cs) (lit ''_'') \<longleftrightarrow> c = 95"
  by (simp add: startswith_def lit_def)

lemma split_aux_skip:
  "95 \<notin> set xs \<Longrightarrow>
     split_aux (lit ''_'') 0 cur (xs @ ys) = split_aux (lit ''_'') 0 (rev xs @ cur) ys"
  by (induction xs arbitrary: cur) (auto simp: startswith_underscore)

lemma split_aux_last:
  "95 \<notin> set xs \<Longrightarrow> split_aux (lit ''_'') 0 cur xs = [rev cur @ xs]"
  using split_aux_skip [of xs cur "[]"] by simp

lemma split_aux_sep:
  "split_aux (lit ''_'') 0 cur (95 # ys) = rev cur # split_aux (lit ''_'') 0 [] ys"
  by (simp add: startswith_underscore)

lemma split_piece:
  "95 \<notin> set xs \<Longrightarrow>
     split_aux (lit ''_'') 0 [] (xs @ 95 # ys) = xs # split_aux (lit ''_'') 0 [] ys"
  by (simp add: split_aux_skip startswith_underscore)

lemma lit_pieces:
  "95 \<notin> set (lit ''approve'')" "95 \<notin> set (lit ''reject'')" "95 \<notin> set (lit ''finalize'')"
  "95 \<notin> set (lit ''reg'')"
  by (simp_all add: lit_def)

lemma split_data3:
  assumes "95 \<notin> set a" and "95 \<notin> set b" and "95 \<notin> set x"
  shows "py_split (lit ''_'') ((a @ 95 # b @ [95]) @ x) = [a, b, x]"
proof -
  have "(a @ 95 # b @ [95]) @ x = a @ 95 # (b @ 95 # x)"
    by simp
  then show ?thesis
    using assms by (simp add: py_split_def split_piece split_aux_last)
qed

lemma split_data4:
  assumes "95 \<notin> set a" and "95 \<notin> set b" and "95 \<notin> set x" and "95 \<notin> set y"
  shows "py_split (lit ''_'') ((a @ 95 # b @ [95]) @ x @ [95] @ y) = [a, b, x, y]"
proof -
  have "(a @ 95 # b @ [95]) @ x @ [95] @ y = a @ 95 # (b @ 95 # (x @ 95 # y))"
    by simp
  then show ?thesis
    using assms by (simp add: py_split_def split_piece split_aux_last)
qed

lemma py_str_no_underscore: "95 \<notin> set (py_str i)"
  by (auto dest: py_str_chars)

lemma split_approve_data:
  "py_split (lit ''_'') (lit ''approve_reg_'' @ py_str t @ lit ''_'' @ py_str p) =
     [lit ''approve'', lit ''reg'', py_str t, py_str p]"
proof -
  have eq: "lit ''approve_reg_'' @ py_str t @ lit ''_'' @ py_str p
      = (lit ''approve'' @ 95 # lit ''reg'' @ [95]) @ py_str t @ [95] @ py_str p"
    by (simp add: lit_def)
  show ?thesis
    unfolding eq by (rule split_data4) (simp_all add: lit_pieces py_str_no_underscore)
qed

lemma split_reject_data:
  "py_split (lit ''_'') (lit ''reject_reg_'' @ py_str t @ lit ''_'' @ py_str p) =
     [lit ''reject'', lit ''reg'', py_str t, py_str p]"
proof -
  have eq: "lit ''reject_reg_'' @ py_str t @ lit ''_'' @ py_str p
      = (lit ''reject'' @ 95 # lit ''reg'' @ [95]) @ py_str t @ [95] @ py_str p"
    by (simp add: lit_def)
  show ?thesis
    unfolding eq by (rule split_data4) (simp_all add: lit_pieces py_str_no_underscore)
qed

lemma split_finalize_data:
  "py_split (lit ''_'') (lit ''finalize_reg_'' @ py_str t) = [lit ''finalize'', lit ''reg'', py_str t]"
proof -
  have eq: "lit ''finalize_reg_'' @ py_str t = (lit ''finalize'' @ 95 # lit ''reg'' @ [95]) @ py_str t"
    by (simp add: lit_def)
  show ?thesis
    unfolding eq by (rule split_data3) (simp_all add: lit_pieces py_str_no_underscore)
qed

lemma startswithD: "startswith data p \<Longrightarrow> \<exists>rest. data = p @ rest"
  unfolding startswith_def by (metis append_take_drop_id)

lemma startswith_append [simp]: "startswith (p @ rest) p"
  by (simp add: startswith_def)

lemma dispatch_prefix_approve:
  assumes "startswith data (lit ''approve_reg_'')"
  shows "button_dispatch e chat_id username full_name data s = approve_branch e chat_id data s"
proof -
  from startswithD [OF assms] obtain rest where "data = lit ''approve_reg_'' @ rest" ..
  then show ?thesis
    by (simp add: button_dispatch_def startswith_def lit_def)
qed

lemma dispatch_prefix_reject:
  assumes "startswith data (lit ''reject_reg_'')"
  shows "button_dispatch e chat_id username full_name data s = reject_branch e chat_id data s"
proof -
  from startswithD [OF assms] obtain rest where "data = lit ''reject_reg_'' @ rest" ..
  then show ?thesis
    by (simp add: button_dispatch_def startswith_def lit_def)
qed

lemma dispatch_prefix_finalize:
  assumes "startswith data (lit ''finalize_reg_'')"
  shows "button_dispatch e chat_id username full_name data s = finalize_branch e chat_id data s"
proof -
  from startswithD [OF assms] obtain rest where "data = lit ''finalize_reg_'' @ rest" ..
  then show ?thesis
    by (simp add: button_dispatch_def startswith_def lit_def)
qed

lemma dispatch_prefix_select:
  assumes "startswith data (lit ''select_account:'')"
  shows "button_dispatch e chat_id username full_name data s = select_account e chat_id data s"
proof -
  from startswithD [OF assms] obtain rest where "data = lit ''select_account:'' @ rest" ..
  then show ?thesis
    by (simp add: button_dispatch_def startswith_def lit_def)
qed

lemma approve_branch_data:
  "approve_branch e chat_id (lit ''approve_reg_'' @ py_str t @ lit ''_'' @ py_str p) s
     = approve_reg e chat_id t (Some p) s"
  unfolding approve_branch_def split_approve_data
  by (simp add: parse_target_def py_int_py_str)

lemma reject_branch_data:
  "reject_branch e chat_id (lit ''reject_reg_'' @ py_str t @ lit ''_'' @ py_str p) s
     = reject_reg e chat_id t (Some p) s"
  unfolding reject_branch_def split_reject_data
  by (simp add: parse_target_def py_int_py_str)

lemma finalize_branch_data:
  "finalize_branch e chat_id (lit ''finalize_reg_'' @ py_str t) s = finalize_reg e chat_id t s"
  unfolding finalize_branch_def split_finalize_data
  by (simp add: py_int_py_str)

lemma dispatch_approve:
  "button_dispatch e chat_id username full_name (lit ''approve_reg_'' @ py_str t @ lit ''_'' @ py_str p) s
     = approve_reg e chat_id t (Some p) s"
  by (simp only: dispatch_prefix_approve [OF startswith_append] approve_branch_data)

lemma dispatch_reject:
  "button_dispatch e chat_id username full_name (lit ''reject_reg_'' @ py_str t @ lit ''_'' @ py_str p) s
     = reject_reg e chat_id t (Some p) s"
  by (simp only: dispatch_prefix_reject [OF startswith_append] reject_branch_data)

lemma dispatch_finalize:
  "button_dispatch e chat_id username full_name (lit ''finalize_reg_'' @ py_str t) s
     = finalize_reg e chat_id t s"
  by (simp only: dispatch_prefix_finalize [OF startswith_append] finalize_branch_data)

subsection \<open>Rows of a key\<close>

lemma find_filter_None: "find P xs = None \<Longrightarrow> filter P xs = []"
  by (induction xs) (auto split: if_splits)

lemma select_user_append:
  "select_user c (us @ [r]) =
     (case select_user c us of Some x \<Rightarrow> Some x
      | None \<Rightarrow> if u_chat_id r = c then Some r else None)"
  by (induction us) (auto simp: select_user_def)

lemma select_user_update:
  assumes "\<And>r. u_chat_id (f r) = u_chat_id r"
  shows "select_user c (update_users t f us) =
           map_option (\<lambda>r. if u_chat_id r = t then f r else r) (select_user c us)"
  using assms by (induction us) (auto simp: select_user_def update_users_def)

lemma filter_key_distinct:
  "distinct (map f xs) \<Longrightarrow> find (\<lambda>r. f r = c) xs \<noteq> None \<Longrightarrow> length (filter (\<lambda>r. f r = c) xs) = 1"
proof (induction xs)
  case Nil
  then show ?case by simp
next
  case (Cons x xs)
  show ?case
  proof (cases "f x = c")
    case True
    with Cons.prems(1) have "c \<notin> f ` set xs" by auto
    then have "filter (\<lambda>r. f r = c) xs = []" by (auto simp: filter_empty_conv)
    with True show ?thesis by simp
  next
    case False
    with Cons show ?thesis by simp
  qed
qed

lemma store_proj:
  "users s = fst (store s)"
  "payments s = fst (snd (store s))"
  "payments_id_seq s = snd (snd (store s))"
  by (simp_all add: store_def)

lemma get_user_status_store:
  "get_user_status s c = map_option u_payment_status (select_user c (fst (store s)))"
  by (simp add: get_user_status_def store_def)

subsection \<open>A photo without a session\<close>

text \<open>
  Claim C7. When the session of the actor does not expect a screenshot (there is no
  session, or it expects something else), \<^verbatim>\<open>handle_photo\<close> does nothing but reply
  "No payment process detected": the tables, the sequence, the sessions and the
  \<^verbatim>\<open>payment_status\<close> of every user are as before.
\<close>

theorem photo_without_session:
  assumes "expecting_of (user_state s uid) \<noteq> Some (lit ''reg_screenshot'')"
  shows "handle_photo e uid username photo s = send e (ReplyText uid (lit ''No payment process detected. Start with /start to register.'') []) s
         \<and> store (state_of (handle_photo e uid username photo s)) = store s
         \<and> user_state (state_of (handle_photo e uid username photo s)) = user_state s
         \<and> get_user_status (state_of (handle_photo e uid username photo s)) c = get_user_status s c"
proof -
  have "handle_photo e uid username photo s = send e (ReplyText uid (lit ''No payment process detected. Start with /start to register.'') []) s"
    using assms by (simp add: handle_photo_def no_payment_process_def)
  then show ?thesis by simp
qed

theorem photo_without_session_witness:
  "expecting_of (user_state st_registered 7) \<noteq> Some (lit ''reg_screenshot'')
   \<and> state_of (handle_photo env1 7 (Some (lit ''al'')) [(lit ''large'')] st_registered)
       = st_registered\<lparr>outbox := outbox st_registered @ [ReplyText 7 (lit ''No payment process detected. Start with /start to register.'') []]\<rparr>
   \<and> get_user_status (state_of (handle_photo env1 7 (Some (lit ''al'')) [(lit ''large'')] st_registered)) 7
       = Some Registered"
proof -
  have h: "expecting_of (user_state st_registered 7) \<noteq> Some (lit ''reg_screenshot'')"
    by code_simp
  have r: "get_user_status st_registered 7 = Some Registered"
    by code_simp
  have d: "deliver env1 (ReplyText 7 (lit ''No payment process detected. Start with /start to register.'') [])"
    by (simp add: env1_def)
  show ?thesis
    using h r d photo_without_session [OF h, of env1 "Some (lit ''al'')" "[(lit ''large'')]" 7]
    by (simp add: send_def get_user_status_def)
qed

subsection \<open>Credentials in one line\<close>

text \<open>
  Claim C8. When the administrator's session expects credentials and the text has
  fewer than two lines that are not blank (lines and blanks as \<^verbatim>\<open>splitlines\<close> and
  \<^verbatim>\<open>strip\<close> see them, Unicode line boundaries and white space included),
  \<^verbatim>\<open>handle_text\<close> does nothing but reply "Please send credentials in two lines":
  nothing is written to the store and the sessions, the administrator's among them,
  are as before.
\<close>

theorem single_line_credentials:
  assumes "uid = ADMIN_ID e"
    and "expecting_of (user_state s (ADMIN_ID e)) = Some (lit ''user_credentials'')"
    and "length (cred_lines (strip raw)) < 2"
  shows "handle_text e uid raw s = send e (ReplyText uid (lit ''Please send credentials in two lines:\<newline>username\<newline>password'') []) s
         \<and> store (state_of (handle_text e uid raw s)) = store s
         \<and> user_state (state_of (handle_text e uid raw s)) = user_state s"
proof -
  have "handle_text e uid raw s = send e (ReplyText uid (lit ''Please send credentials in two lines:\<newline>username\<newline>password'') []) s"
    using assms by (simp add: handle_text_def Let_def two_lines_please_def)
  then show ?thesis by simp
qed

theorem single_line_credentials_witness:
  "(1::int) = ADMIN_ID env1
   \<and> expecting_of (user_state st_finalize (ADMIN_ID env1)) = Some (lit ''user_credentials'')
   \<and> length (cred_lines (strip (lit ''alice'' @ [10, 0xA0]))) < 2
   \<and> user_state (state_of (handle_text env1 1 (lit ''alice'' @ [10, 0xA0]) st_finalize)) 1
       = Some \<lparr>expecting = (lit ''user_credentials''), payment_id = None, for_user = Some 7\<rparr>
   \<and> get_user_status (state_of (handle_text env1 1 (lit ''alice'' @ [10, 0xA0]) st_finalize)) 7 = Some Approved
   \<and> outbox (state_of (handle_text env1 1 (lit ''alice'' @ [10, 0xA0]) st_finalize))
       = outbox st_finalize @ [ReplyText 1 (lit ''Please send credentials in two lines:\<newline>username\<newline>password'') []]
   \<and> length (cred_lines (strip (lit ''alice'' @ [0x2028] @ lit ''Secret1''))) = 2"
proof -
  have a: "(1::int) = ADMIN_ID env1"
    by (simp add: env1_def)
  have b: "expecting_of (user_state st_finalize (ADMIN_ID env1)) = Some (lit ''user_credentials'')"
    by code_simp
  have c: "length (cred_lines (strip (lit ''alice'' @ [10, 0xA0]))) < 2"
    by code_simp
  have u: "user_state st_finalize 1
       = Some \<lparr>expecting = (lit ''user_credentials''), payment_id = None, for_user = Some 7\<rparr>"
    by code_simp
  have g: "get_user_status st_finalize 7 = Some Approved"
    by code_simp
  have d: "deliver env1 (ReplyText 1 (lit ''Please send credentials in two lines:\<newline>username\<newline>password'') [])"
    by (simp add: env1_def)
  have t: "length (cred_lines (strip (lit ''alice'' @ [0x2028] @ lit ''Secret1''))) = 2"
    by code_simp
  show ?thesis
    using a b c u g d t single_line_credentials [OF a b c]
    by (simp add: send_def get_user_status_def)
qed

subsection \<open>Credentials without a target\<close>



subsection \<open>Entering twice\<close>

text \<open>
  Claim C9. On a \<^verbatim>\<open>users\<close> table whose primary key is respected, two calls of
  \<^verbatim>\<open>start\<close> for the same actor (whatever name the actor carries at either call and
  whether or not the replies are delivered) leave exactly one row of that actor,
  and the second call leaves the tables and the sequence as the first call left
  them.
\<close>

theorem start_twice:
  assumes "distinct (map u_chat_id (users s))"
  shows "length (users_of (state_of (start e' chat_id username' full_name'
                  (state_of (start e chat_id username full_name s)))) chat_id) = 1
         \<and> store (state_of (start e' chat_id username' full_name'
                  (state_of (start e chat_id username full_name s))))
           = store (state_of (start e chat_id username full_name s))"
proof (cases "select_user chat_id (users s) = None")
  case True
  then have "filter (\<lambda>r. u_chat_id r = chat_id) (users s) = []"
    by (simp add: select_user_def find_filter_None)
  with True show ?thesis
    by (simp add: store_start users_of_def store_proj select_user_append new_user_row_def)
next
  case False
  with assms have "length (filter (\<lambda>r. u_chat_id r = chat_id) (users s)) = 1"
    by (simp add: select_user_def filter_key_distinct)
  with False show ?thesis
    by (simp add: store_start users_of_def store_proj)
qed

theorem start_twice_witness:
  "distinct (map u_chat_id (users st_registered))
   \<and> length (users_of (state_of (start env1 7 None (lit ''Al'')
        (state_of (start env1 7 (Some (lit ''al'')) (lit ''Al Ice'') st_registered)))) 7) = 1
   \<and> get_user_status (state_of (start env1 7 None (lit ''Al'')
        (state_of (start env1 7 (Some (lit ''al'')) (lit ''Al Ice'') st_registered)))) 7 = Some Registered
   \<and> users_of (state_of (start env1 8 None (lit ''Bo'')
        (state_of (start env1 8 (Some (lit ''bo'')) (lit ''Bo B'') st_registered)))) 8
       = [new_user_row 8 (Some (lit ''bo'')) (lit ''Bo B'') None New]"
proof -
  have h: "distinct (map u_chat_id (users st_registered))"
    by code_simp
  have r: "get_user_status (state_of (start env1 7 None (lit ''Al'')
        (state_of (start env1 7 (Some (lit ''al'')) (lit ''Al Ice'') st_registered)))) 7 = Some Registered"
    by code_simp
  have a: "users_of (state_of (start env1 8 None (lit ''Bo'')
        (state_of (start env1 8 (Some (lit ''bo'')) (lit ''Bo B'') st_registered)))) 8
       = [new_user_row 8 (Some (lit ''bo'')) (lit ''Bo B'') None New]"
    by code_simp
  from start_twice [OF h, of env1 7 None "(lit ''Al'')" env1 "Some (lit ''al'')" "(lit ''Al Ice'')"]
  have "length (users_of (state_of (start env1 7 None (lit ''Al'')
        (state_of (start env1 7 (Some (lit ''al'')) (lit ''Al Ice'') st_registered)))) 7) = 1"
    by (rule conjunct1)
  with h r a show ?thesis by blast
qed

subsection \<open>The order of the statuses\<close>

text \<open>
  Claim C3, as stated, fails, and not for the rejection alone: a registered user
  who presses a package button is back at \<^verbatim>\<open>pending_payment\<close>; a registered user
  for whom the administrator presses Approve once more is back at \<^verbatim>\<open>approved\<close>;
  a registered user who selects an account and uploads a photo is back at
  \<^verbatim>\<open>pending_approval\<close>.
\<close>

theorem registered_user_moved_back:
  "get_user_status st_registered 7 = Some Registered
   \<and> get_user_status (state_of (handle env1
          (Button 7 (Some (lit ''al'')) (lit ''Al Ice'') (lit ''reg_standard'')) st_registered)) 7
       = Some Pending_payment
   \<and> get_user_status (state_of (handle env1
          (Button 1 None (lit ''Admin'') (lit ''approve_reg_7_1'')) st_registered)) 7
       = Some Approved
   \<and> get_user_status (state_of (handle env1
          (Button 7 (Some (lit ''al'')) (lit ''Al Ice'') (lit ''select_account:Bank A'')) st_registered)) 7
       = Some Registered
   \<and> get_user_status (state_of (handle env1 (Photo 7 (Some (lit ''al'')) [lit ''large''])
          (state_of (handle env1
             (Button 7 (Some (lit ''al'')) (lit ''Al Ice'') (lit ''select_account:Bank A'')) st_registered)))) 7
       = Some Pending_approval"
  by code_simp

lemma select_user_key: "select_user c us = Some r \<Longrightarrow> u_chat_id r = c"
  by (auto simp: select_user_def dest: find_Some_iff [THEN iffD1])

lemma rowcount_users_found: "select_user c us = Some r \<Longrightarrow> rowcount_users c us \<noteq> 0"
  by (induction us) (auto simp: select_user_def rowcount_users_def split: if_splits)

lemma status_same_users:
  "users s' = users s \<Longrightarrow> get_user_status s' c = get_user_status s c"
  by (simp add: get_user_status_def)

lemma status_after_update:
  assumes "get_user_status s c = Some a"
    and "users s' = update_users t f (users s)"
    and "\<And>r. u_chat_id (f r) = u_chat_id r"
    and "\<And>r. u_payment_status (f r) = w"
  shows "get_user_status s' c = Some (if c = t then w else a)"
proof -
  from assms(1) obtain r where r: "select_user c (users s) = Some r" "u_payment_status r = a"
    by (auto simp: get_user_status_def)
  then have "u_chat_id r = c"
    by (simp add: select_user_key)
  with r assms(2-4) show ?thesis
    by (simp add: get_user_status_def select_user_update)
qed

lemma status_reg_package:
  assumes "get_user_status s c = Some a"
  shows "get_user_status (state_of (reg_package e uid username full_name data s)) c
           = Some (if c = uid then Pending_payment else a)"
proof -
  define package where "package = (if data = lit ''reg_standard'' then lit ''Standard'' else lit ''X'')"
  define f :: "user_row \<Rightarrow> user_row"
    where "f = (\<lambda>r. r\<lparr>u_package := Some package, u_payment_status := Pending_payment\<rparr>)"
  define s1 where "s1 = s\<lparr>users := update_users uid f (users s)\<rparr>"
  have s1: "get_user_status s1 c = Some (if c = uid then Pending_payment else a)"
    by (rule status_after_update [OF assms, where f = f]) (simp_all add: s1_def f_def)
  from assms obtain r where r: "select_user c (users s) = Some r"
    by (auto simp: get_user_status_def)
  have u: "users (state_of (reg_package e uid username full_name data s)) =
      (if rowcount_users uid (users s) = 0
       then users s1 @ [new_user_row uid username full_name (Some package) Pending_payment]
       else users s1)"
    using store_reg_package [of e uid username full_name data s]
    by (simp add: store_def Let_def s1_def f_def package_def)
  show ?thesis
  proof (cases "rowcount_users uid (users s) = 0")
    case True
    with r have "c \<noteq> uid"
      using rowcount_users_found by blast
    with True s1 u show ?thesis
      by (auto simp: get_user_status_def select_user_append)
  next
    case False
    with u have "users (state_of (reg_package e uid username full_name data s)) = users s1"
      by simp
    with s1 show ?thesis
      by (simp add: get_user_status_def)
  qed
qed

lemma status_approve_reg:
  assumes "get_user_status s c = Some a"
  shows "get_user_status (state_of (approve_reg e chat_id t pid s)) c
           = Some (if c = t then Approved else a)"
  by (rule status_after_update [OF assms, where f = "\<lambda>r. r\<lparr>u_payment_status := Approved,
        u_approved_at := Some (now e (if truthy pid then 1 else 0))\<rparr>"])
     (use store_approve_reg [of e chat_id t pid s] in \<open>simp_all add: store_def\<close>)

lemma status_reject_reg:
  assumes "get_user_status s c = Some a"
  shows "get_user_status (state_of (reject_reg e chat_id t pid s)) c
           = Some (if c = t then New else a)"
  by (rule status_after_update [OF assms, where f = "\<lambda>r. r\<lparr>u_payment_status := New\<rparr>"])
     (use store_reject_reg [of e chat_id t pid s] in \<open>simp_all add: store_def\<close>)

lemma status_set_credentials:
  assumes "get_user_status s c = Some a"
  shows "get_user_status (state_of (set_credentials e uid t username password s)) c
           = Some (if c = t then Registered else a)"
  by (rule status_after_update [OF assms, where f = "\<lambda>r. r\<lparr>u_username := Some username,
        u_payment_status := Registered, u_registration_date := Some (now e 0)\<rparr>"])
     (use store_set_credentials [of e uid t username password s] in \<open>simp_all add: store_def\<close>)

lemma status_approve_branch:
  assumes "get_user_status s c = Some a"
  shows "get_user_status (state_of (approve_branch e chat_id data s)) c
           = Some (if callback_target e data = Some c then Approved else a)"
  using assms
  by (auto simp: approve_branch_def callback_target_def Let_def status_approve_reg
      split: option.splits)

lemma status_reject_branch:
  assumes "get_user_status s c = Some a"
  shows "get_user_status (state_of (reject_branch e chat_id data s)) c
           = Some (if callback_target e data = Some c then New else a)"
  using assms
  by (auto simp: reject_branch_def callback_target_def Let_def status_reject_reg
      split: option.splits)

lemma status_select_account:
  "get_user_status (state_of (select_account e uid data s)) c = get_user_status s c"
  by (rule status_same_users)
     (use store_select_account [of e uid data s] in \<open>simp add: store_def split: list.splits\<close>)

lemma status_finalize_branch:
  "get_user_status (state_of (finalize_branch e chat_id data s)) c = get_user_status s c"
  by (rule status_same_users)
     (use store_finalize_branch [of e chat_id data s] in \<open>simp add: store_def\<close>)

lemma status_help_menu_cmd: "get_user_status (state_of (help_menu_cmd s)) c = get_user_status s c"
  by (simp add: help_menu_cmd_def)

lemma status_show_main_menu:
  "get_user_status (state_of (show_main_menu e chat_id s)) c = get_user_status s c"
  by (simp add: show_main_menu_def)

lemma status_button_dispatch:
  assumes "get_user_status s c = Some a" and "deliver e (Answer chat_id)"
  shows "get_user_status (state_of (button_dispatch e chat_id username full_name data s)) c
           = Some (case written_status e (Button chat_id username full_name data) s' c of
                     None \<Rightarrow> a | Some w \<Rightarrow> w)"
proof -
  consider (reg) "data = lit ''reg_standard'' \<or> data = lit ''reg_x''"
    | (approve) "\<not> (data = lit ''reg_standard'' \<or> data = lit ''reg_x'')"
        "startswith data (lit ''approve_reg_'')"
    | (reject) "\<not> (data = lit ''reg_standard'' \<or> data = lit ''reg_x'')"
        "\<not> startswith data (lit ''approve_reg_'')" "startswith data (lit ''reject_reg_'')"
    | (other) "\<not> (data = lit ''reg_standard'' \<or> data = lit ''reg_x'')"
        "\<not> startswith data (lit ''approve_reg_'')" "\<not> startswith data (lit ''reject_reg_'')"
    by blast
  then show ?thesis
  proof cases
    case reg
    then have "button_dispatch e chat_id username full_name data s
        = reg_package e chat_id username full_name data s"
      by (auto simp: button_dispatch_def)
    with reg assms show ?thesis
      by (auto simp: status_reg_package)
  next
    case approve
    then have "button_dispatch e chat_id username full_name data s = approve_branch e chat_id data s"
      by (simp add: dispatch_prefix_approve)
    with approve assms(2) status_approve_branch [OF assms(1), of e chat_id data] show ?thesis
      by auto
  next
    case reject
    then have "button_dispatch e chat_id username full_name data s = reject_branch e chat_id data s"
      by (simp add: dispatch_prefix_reject)
    with reject assms(2) status_reject_branch [OF assms(1), of e chat_id data] show ?thesis
      by auto
  next
    case other
    then have "get_user_status (state_of (button_dispatch e chat_id username full_name data s)) c
        = get_user_status s c"
      by (simp add: button_dispatch_def status_show_main_menu status_help_menu_cmd
          status_select_account status_finalize_branch)
    with other assms show ?thesis by simp
  qed
qed

lemma status_button_handler:
  "get_user_status (state_of (button_handler e chat_id username full_name data s)) c =
     (if deliver e (Answer chat_id)
      then get_user_status (state_of (button_dispatch e chat_id username full_name data
             (s\<lparr>outbox := outbox s @ [Answer chat_id]\<rparr>))) c
      else get_user_status s c)"
  by (simp add: get_user_status_store store_button_handler)

lemma status_handle_photo:
  assumes "get_user_status s c = Some a"
  shows "get_user_status (state_of (handle_photo e uid username photo s)) c
           = Some (case written_status e (Photo uid username photo) s c of
                     None \<Rightarrow> a | Some w \<Rightarrow> w)"
proof (cases "expecting_of (user_state s uid) = Some (lit ''reg_screenshot'')")
  case True
  show ?thesis
  proof (cases "photo \<noteq> [] \<and> deliver e (admin_photo e uid username photo (payment_id_of (user_state s uid)))
      \<and> deliver e (screenshot_received uid)")
    case delivered: True
    with store_handle_photo [OF True, of photo e username]
    have "users (state_of (handle_photo e uid username photo s))
        = update_users uid (\<lambda>r. r\<lparr>u_payment_status := Pending_approval\<rparr>) (users s)"
      by (simp add: store_def)
    from status_after_update [OF assms this, of Pending_approval] True delivered show ?thesis
      by (cases "c = uid") auto
  next
    case lost: False
    with store_handle_photo [OF True, of photo e username]
    have "users (state_of (handle_photo e uid username photo s)) = users s"
      by (simp add: store_def)
    with assms lost show ?thesis
      by (auto simp: get_user_status_def)
  qed
next
  case False
  then have "handle_photo e uid username photo s = send e (no_payment_process uid) s"
    by (simp add: handle_photo_def)
  with assms False show ?thesis by simp
qed

lemma status_handle_text:
  assumes "get_user_status s c = Some a"
  shows "get_user_status (state_of (handle_text e uid raw s)) c = Some a
       \<or> get_user_status (state_of (handle_text e uid raw s)) c = Some Registered"
proof (cases "store (state_of (handle_text e uid raw s)) = store s")
  case True
  with assms show ?thesis
    by (simp add: get_user_status_store)
next
  case False
  then obtain target where
    "store (state_of (handle_text e uid raw s)) =
       store (state_of (set_credentials e uid target (cred_lines (strip raw) ! 0) (cred_lines (strip raw) ! 1) s))"
    by (auto simp: store_handle_text split: if_splits option.splits)
  then have "get_user_status (state_of (handle_text e uid raw s)) c =
      get_user_status (state_of (set_credentials e uid target (cred_lines (strip raw) ! 0)
        (cred_lines (strip raw) ! 1) s)) c"
    by (simp add: get_user_status_store)
  with status_set_credentials [OF assms] show ?thesis
    by auto
qed

lemma status_start:
  assumes "get_user_status s c = Some a"
  shows "get_user_status (state_of (start e chat_id username full_name s)) c = Some a"
  using assms store_start [of e chat_id username full_name s]
  by (auto simp: get_user_status_def store_def select_user_append)

text \<open>
  Claim C3, amended. The handlers of four updates write a fixed status to the row of
  a user without reading the current one: a package button writes
  \<^verbatim>\<open>pending_payment\<close> for the actor who presses it, an approve callback writes
  \<^verbatim>\<open>approved\<close> and a reject callback writes \<^verbatim>\<open>new\<close> for the actor that the
  callback names (each once the button press is acknowledged), and a photo writes
  \<^verbatim>\<open>pending_approval\<close> for its sender (once the session expects the screenshot and
  the photo for the administrator and the reply to the sender are delivered). When
  the handler reaches such a write for a user, the status of that user after the
  update is the written one, whatever it was before and whoever sent the update. In
  every other case (every other update, every other user, a handler that stops
  before its write) the status does not move down in the order new, pending_payment,
  pending_approval, approved, registered.
\<close>

theorem status_never_lower:
  assumes "get_user_status s c = Some a"
  shows "\<exists>b. get_user_status (state_of (handle e u s)) c = Some b
           \<and> (case written_status e u s c of
                 None \<Rightarrow> status_rank a \<le> status_rank b
               | Some w \<Rightarrow> b = w)"
proof (cases u)
  case (Start chat_id username full_name)
  with status_start [OF assms] show ?thesis by simp
next
  case (Button chat_id username full_name data)
  show ?thesis
  proof (cases "deliver e (Answer chat_id)")
    case True
    have "get_user_status (s\<lparr>outbox := outbox s @ [Answer chat_id]\<rparr>) c = Some a"
      using assms by (simp add: get_user_status_def)
    from status_button_dispatch [OF this True, of username full_name data s] True Button
    show ?thesis
      by (auto simp: status_button_handler split: option.splits simp del: written_status.simps)
  next
    case False
    with assms Button show ?thesis
      by (simp add: status_button_handler)
  qed
next
  case (Photo uid username photo)
  with status_handle_photo [OF assms, of e uid username photo] show ?thesis
    by (auto split: option.splits simp del: written_status.simps)
next
  case (Text uid raw)
  with status_handle_text [OF assms, of e uid raw] show ?thesis
    by (cases a) auto
qed

theorem status_never_lower_witness:
  "get_user_status st_finalize 7 = Some Approved
   \<and> written_status env1 (Text 1 (lit ''alice\<newline>Secret1'')) st_finalize 7 = None
   \<and> get_user_status (state_of (handle env1 (Text 1 (lit ''alice\<newline>Secret1'')) st_finalize)) 7
       = Some Registered
   \<and> get_user_status st_registered 7 = Some Registered
   \<and> written_status env1 (Button 1 None (lit ''Admin'') (lit ''approve_reg_7_1'')) st_registered 7
       = Some Approved
   \<and> get_user_status (state_of (handle env1
          (Button 1 None (lit ''Admin'') (lit ''approve_reg_7_1'')) st_registered)) 7 = Some Approved
   \<and> written_status env1 (Button 1 None (lit ''Admin'') (lit ''approve_reg_8_1'')) st_registered 7 = None
   \<and> get_user_status (state_of (handle env1
          (Button 1 None (lit ''Admin'') (lit ''approve_reg_8_1'')) st_registered)) 7 = Some Registered
   \<and> written_status env_silent (Button 1 None (lit ''Admin'') (lit ''approve_reg_7_1'')) st_registered 7
       = None
   \<and> written_status env1 (Photo 7 (Some (lit ''al'')) [lit ''large'']) st_registered 7 = None
   \<and> written_status env1 (Photo 7 (Some (lit ''al'')) [lit ''large'']) st_account 7
       = Some Pending_approval
   \<and> written_status env1 (Button 1 None (lit ''Admin'') (lit ''reject_reg_'' @ [0x667])) st_registered 7
       = Some New"
proof -
  have wu: "written_status env1 (Button 1 None (lit ''Admin'') (lit ''reject_reg_'' @ [0x667])) st_registered 7
      = Some New"
    by code_simp
  have b: "get_user_status st_finalize 7 = Some Approved"
    by code_simp
  have w: "written_status env1 (Text 1 (lit ''alice\<newline>Secret1'')) st_finalize 7 = None"
    by simp
  have c: "get_user_status (state_of (handle env1 (Text 1 (lit ''alice\<newline>Secret1'')) st_finalize)) 7
      = Some Registered"
    by code_simp
  have r: "get_user_status st_registered 7 = Some Registered"
    by code_simp
  have w7: "written_status env1 (Button 1 None (lit ''Admin'') (lit ''approve_reg_7_1'')) st_registered 7
      = Some Approved"
    by code_simp
  have w8: "written_status env1 (Button 1 None (lit ''Admin'') (lit ''approve_reg_8_1'')) st_registered 7 = None"
    by code_simp
  have ws: "written_status env_silent (Button 1 None (lit ''Admin'') (lit ''approve_reg_7_1'')) st_registered 7
      = None"
    by code_simp
  have p1: "written_status env1 (Photo 7 (Some (lit ''al'')) [lit ''large'']) st_registered 7 = None"
    by code_simp
  have p2: "written_status env1 (Photo 7 (Some (lit ''al'')) [lit ''large'']) st_account 7
      = Some Pending_approval"
    by code_simp
  from status_never_lower [OF r, of env1 "Button 1 None (lit ''Admin'') (lit ''approve_reg_7_1'')"]
  have x7: "get_user_status (state_of (handle env1
          (Button 1 None (lit ''Admin'') (lit ''approve_reg_7_1'')) st_registered)) 7 = Some Approved"
    unfolding w7 by auto
  from status_never_lower [OF r, of env1 "Button 1 None (lit ''Admin'') (lit ''approve_reg_8_1'')"]
  obtain x where x: "get_user_status (state_of (handle env1
          (Button 1 None (lit ''Admin'') (lit ''approve_reg_8_1'')) st_registered)) 7 = Some x"
      "status_rank Registered \<le> status_rank x"
    unfolding w8 by auto
  from x(2) have "x = Registered"
    by (cases x) simp_all
  with x(1) x7 b w c r w7 w8 ws p1 p2 wu show ?thesis by blast
qed

subsection \<open>Who may press the administrator's buttons\<close>

text \<open>
  Claim C1. \<^verbatim>\<open>button_handler\<close> never compares the actor with \<^verbatim>\<open>ADMIN_ID\<close>
  (\<^verbatim>\<open>adminstats\<close> and \<^verbatim>\<open>handle_text\<close> do). Here actor 5, who is not the
  administrator, sends the data of the Approve button, and of the Reject button, for
  the pending payment 1 of actor 7: the tables change as if the administrator had
  pressed the button.
\<close>

theorem approve_by_other_actor:
  "5 \<noteq> ADMIN_ID env1
   \<and> get_user_status st_screenshot 7 = Some Pending_approval
   \<and> map p_status (payments st_screenshot) = [Pending]
   \<and> get_user_status (state_of (button_handler env1 5 None (lit ''Eve'') (lit ''approve_reg_7_1'') st_screenshot)) 7
       = Some Approved
   \<and> map p_status (payments (state_of (button_handler env1 5 None (lit ''Eve'') (lit ''approve_reg_7_1'') st_screenshot)))
       = [Attempt_approved]
   \<and> get_user_status (state_of (button_handler env1 5 None (lit ''Eve'') (lit ''reject_reg_7_1'') st_screenshot)) 7
       = Some New
   \<and> map p_status (payments (state_of (button_handler env1 5 None (lit ''Eve'') (lit ''reject_reg_7_1'') st_screenshot)))
       = [Rejected]"
  by code_simp

subsection \<open>The owner of an approved payment\<close>

text \<open>
  Claim C2, as stated, fails: payment 1 belongs to actor 7; an approve callback that
  names actor 8 and payment 1 sets it to approved.
\<close>

theorem approve_other_owner:
  "map (\<lambda>r. (p_id r, p_chat_id r, p_status r)) (payments st_two_actors) = [(1, 7, Pending)]
   \<and> map (\<lambda>r. (p_id r, p_chat_id r, p_status r))
        (payments (state_of (button_handler env1 1 None (lit ''Admin'') (lit ''approve_reg_8_1'') st_two_actors)))
       = [(1, 7, Attempt_approved)]"
  by code_simp

lemma payments_approve_callback:
  "payments (state_of (button_handler e chat_id username full_name
       (lit ''approve_reg_'' @ py_str t @ lit ''_'' @ py_str p) s)) =
     (if deliver e (Answer chat_id) \<and> p \<noteq> 0
      then update_payments (\<lambda>r. p_id r = p)
             (\<lambda>r. r\<lparr>p_status := Attempt_approved, p_approved_at := Some (now e 0)\<rparr>) (payments s)
      else payments s)"
proof -
  have "store (state_of (button_handler e chat_id username full_name
             (lit ''approve_reg_'' @ py_str t @ lit ''_'' @ py_str p) s))
        = (if deliver e (Answer chat_id)
           then store (state_of (approve_reg e chat_id t (Some p) (s\<lparr>outbox := outbox s @ [Answer chat_id]\<rparr>)))
           else store s)"
    by (simp only: store_button_handler dispatch_approve)
  then have A: "payments (state_of (button_handler e chat_id username full_name
             (lit ''approve_reg_'' @ py_str t @ lit ''_'' @ py_str p) s))
        = (if deliver e (Answer chat_id)
           then payments (state_of (approve_reg e chat_id t (Some p) (s\<lparr>outbox := outbox s @ [Answer chat_id]\<rparr>)))
           else payments s)"
    by (simp add: store_def split: if_splits)
  have B: "payments (state_of (approve_reg e chat_id t (Some p) (s\<lparr>outbox := outbox s @ [Answer chat_id]\<rparr>)))
        = (if p \<noteq> 0
           then update_payments (\<lambda>r. p_id r = p)
             (\<lambda>r. r\<lparr>p_status := Attempt_approved, p_approved_at := Some (now e 0)\<rparr>) (payments s)
           else payments s)"
    using store_approve_reg [of e chat_id t "Some p" "s\<lparr>outbox := outbox s @ [Answer chat_id]\<rparr>"]
    by (simp add: store_def truthy_def)
  show ?thesis
    unfolding A B by simp
qed

text \<open>
  Claim C2, amended. An approve callback with the data
  \<^verbatim>\<open>approve_reg_<target>_<payment id>\<close>, once the button press is acknowledged and when
  the payment id is not 0, sets every row of \<^verbatim>\<open>payments\<close> with that id to approved
  (with the approval time), whoever owns the row: the owner is not compared with the
  target. It changes no other row. When the acknowledgement fails, or the payment id
  is 0, it changes no row of \<^verbatim>\<open>payments\<close> at all. No row ever changes its id or
  its owner.
\<close>

theorem approve_by_id:
  assumes "i < length (payments s)"
  shows "length (payments (state_of (button_handler e chat_id username full_name
             (lit ''approve_reg_'' @ py_str t @ lit ''_'' @ py_str p) s))) = length (payments s)
     \<and> p_id (payments (state_of (button_handler e chat_id username full_name
             (lit ''approve_reg_'' @ py_str t @ lit ''_'' @ py_str p) s)) ! i) = p_id (payments s ! i)
     \<and> p_chat_id (payments (state_of (button_handler e chat_id username full_name
             (lit ''approve_reg_'' @ py_str t @ lit ''_'' @ py_str p) s)) ! i) = p_chat_id (payments s ! i)
     \<and> payments (state_of (button_handler e chat_id username full_name
             (lit ''approve_reg_'' @ py_str t @ lit ''_'' @ py_str p) s)) ! i =
         (if deliver e (Answer chat_id) \<and> p \<noteq> 0 \<and> p_id (payments s ! i) = p
          then (payments s ! i)\<lparr>p_status := Attempt_approved, p_approved_at := Some (now e 0)\<rparr>
          else payments s ! i)"
  using assms by (simp add: payments_approve_callback update_payments_def)

theorem approve_by_id_witness:
  "0 < length (payments st_two_actors)
   \<and> p_id (payments st_two_actors ! 0) = 1
   \<and> p_chat_id (payments st_two_actors ! 0) = 7
   \<and> p_status (payments st_two_actors ! 0) = Pending
   \<and> deliver env1 (Answer 1)
   \<and> p_chat_id (payments (state_of (button_handler env1 1 None (lit ''Admin'')
        (lit ''approve_reg_'' @ py_str 8 @ lit ''_'' @ py_str 1) st_two_actors)) ! 0) = 7
   \<and> p_status (payments (state_of (button_handler env1 1 None (lit ''Admin'')
        (lit ''approve_reg_'' @ py_str 8 @ lit ''_'' @ py_str 1) st_two_actors)) ! 0) = Attempt_approved
   \<and> \<not> deliver env_silent (Answer 1)
   \<and> p_status (payments (state_of (button_handler env_silent 1 None (lit ''Admin'')
        (lit ''approve_reg_'' @ py_str 8 @ lit ''_'' @ py_str 1) st_two_actors)) ! 0) = Pending"
proof -
  have a: "deliver env1 (Answer 1)" and n: "\<not> deliver env_silent (Answer 1)"
    by (simp_all add: env1_def env_silent_def)
  have c: "0 < length (payments st_two_actors)"
    by code_simp
  have d: "p_id (payments st_two_actors ! 0) = 1"
    by code_simp
  have f: "p_chat_id (payments st_two_actors ! 0) = 7"
    by code_simp
  have g: "p_status (payments st_two_actors ! 0) = Pending"
    by code_simp
  from approve_by_id [OF c, of env1 1 None "lit ''Admin''" 8 1]
    approve_by_id [OF c, of env_silent 1 None "lit ''Admin''" 8 1]
  show ?thesis
    using a n c d f g by simp
qed

subsection \<open>Selecting an account without a package\<close>










subsection \<open>Writes and notifications\<close>

text \<open>
  Claim C6, as stated, fails: \<^verbatim>\<open>handle_photo\<close> sends the photo to the administrator
  before it updates \<^verbatim>\<open>users\<close>, inside one \<^verbatim>\<open>try\<close>; when the photo is not
  delivered, the status stays \<^verbatim>\<open>pending_payment\<close>.
\<close>

theorem photo_lost_status_unchanged:
  "expecting_of (user_state st_account 7) = Some (lit ''reg_screenshot'')
   \<and> get_user_status st_account 7 = Some Pending_payment
   \<and> get_user_status (state_of (handle_photo env_photo_lost 7 (Some (lit ''al'')) [(lit ''small''), (lit ''large'')] st_account)) 7
       = Some Pending_payment
   \<and> get_user_status (state_of (handle_photo env1 7 (Some (lit ''al'')) [(lit ''small''), (lit ''large'')] st_account)) 7
       = Some Pending_approval"
  by code_simp

lemma env_deliver_simps [simp]:
  "ADMIN_ID (e\<lparr>deliver := d\<rparr>) = ADMIN_ID e"
  "now (e\<lparr>deliver := d\<rparr>) = now e"
  "db_now (e\<lparr>deliver := d\<rparr>) = db_now e"
  "unicode_decimal (e\<lparr>deliver := d\<rparr>) = unicode_decimal e"
  by simp_all

lemma store_branches_deliver:
  "store (state_of (reg_package (e\<lparr>deliver := d\<rparr>) chat_id username full_name data s))
     = store (state_of (reg_package e chat_id username full_name data s))"
  "store (state_of (select_account (e\<lparr>deliver := d\<rparr>) chat_id data s))
     = store (state_of (select_account e chat_id data s))"
  "store (state_of (approve_branch (e\<lparr>deliver := d\<rparr>) chat_id data s))
     = store (state_of (approve_branch e chat_id data s))"
  "store (state_of (reject_branch (e\<lparr>deliver := d\<rparr>) chat_id data s))
     = store (state_of (reject_branch e chat_id data s))"
  by (simp_all add: store_reg_package store_select_account store_approve_branch store_reject_branch
      store_approve_reg store_reject_reg Let_def split: list.splits option.splits)

lemma store_dispatch_deliver:
  "store (state_of (button_dispatch (e\<lparr>deliver := d\<rparr>) chat_id username full_name data s))
     = store (state_of (button_dispatch e chat_id username full_name data s))"
  by (simp add: store_button_dispatch store_branches_deliver)

lemma store_text_deliver:
  "store (state_of (handle_text (e\<lparr>deliver := d\<rparr>) uid raw s))
     = store (state_of (handle_text e uid raw s))"
  by (simp add: store_handle_text store_set_credentials split: option.splits)

lemma store_branches_outbox:
  "store (state_of (reg_package e chat_id username full_name data (s\<lparr>outbox := b\<rparr>)))
     = store (state_of (reg_package e chat_id username full_name data s))"
  "store (state_of (select_account e chat_id data (s\<lparr>outbox := b\<rparr>)))
     = store (state_of (select_account e chat_id data s))"
  "store (state_of (approve_branch e chat_id data (s\<lparr>outbox := b\<rparr>)))
     = store (state_of (approve_branch e chat_id data s))"
  "store (state_of (reject_branch e chat_id data (s\<lparr>outbox := b\<rparr>)))
     = store (state_of (reject_branch e chat_id data s))"
  by (simp_all add: store_reg_package store_select_account store_approve_branch store_reject_branch
      store_approve_reg store_reject_reg Let_def split: list.splits option.splits)

lemma store_dispatch_outbox:
  "store (state_of (button_dispatch e chat_id username full_name data (s\<lparr>outbox := b\<rparr>)))
     = store (state_of (button_dispatch e chat_id username full_name data s))"
  by (simp add: store_button_dispatch store_branches_outbox)

lemma button_not_acknowledged:
  "\<not> deliver e (Answer chat_id) \<Longrightarrow>
     state_of (button_handler e chat_id username full_name data s) = s"
  by (simp add: button_handler_def outcome_defs)

lemma photo_outcome:
  assumes "expecting_of (user_state s uid) = Some (lit ''reg_screenshot'')"
  shows
    "let after = state_of (handle_photo e uid username photo s);
         to_admin = admin_photo e uid username photo (payment_id_of (user_state s uid));
         received = ReplyText uid
           (sym_check @ lit '' Screenshot received! Admin will review and get back to you.'') [];
         failure = ReplyText uid (lit ''Error processing screenshot. Try again later.'') []
     in if photo \<noteq> [] \<and> deliver e to_admin \<and> deliver e received
        then store after
               = (update_users uid (\<lambda>r. r\<lparr>u_payment_status := Pending_approval\<rparr>) (users s),
                  payments s, payments_id_seq s)
           \<and> user_state after = (user_state s)(uid := None)
           \<and> outbox after = outbox s @ [to_admin, received]
        else store after = store s
           \<and> user_state after = user_state s
           \<and> outbox after = outbox s @ (if photo \<noteq> [] \<and> deliver e to_admin then [to_admin] else [])
                @ (if deliver e failure then [failure] else [])"
  using assms
  by (simp add: handle_photo_def Let_def outcome_defs store_def screenshot_received_def)

text \<open>
  Claim C6, amended. \<^verbatim>\<open>start\<close> and \<^verbatim>\<open>handle_text\<close> write to the store before they
  send anything: the store after the update is the same whichever messages are
  delivered. \<^verbatim>\<open>button_handler\<close> first acknowledges the button press
  (\<^verbatim>\<open>query.answer()\<close>, before its \<^verbatim>\<open>try\<close>): when that call fails, nothing at all
  happens; once it has succeeded, every branch writes before it sends and the store
  is the same whichever of the later messages are delivered. \<^verbatim>\<open>handle_photo\<close> with
  a session that expects the screenshot sends the photo to the administrator and the
  reply to the actor before it writes: when both are delivered, the status of the
  actor becomes \<^verbatim>\<open>pending_approval\<close> and the session is removed; when one of them
  is not, the store and the sessions are as before and the handler replies "Error
  processing screenshot. Try again later.".
\<close>

theorem store_before_notifications:
  "store (state_of (start (e\<lparr>deliver := d\<rparr>) chat_id username full_name s))
     = store (state_of (start e chat_id username full_name s))
   \<and> store (state_of (handle_text (e\<lparr>deliver := d\<rparr>) uid raw s))
       = store (state_of (handle_text e uid raw s))
   \<and> (if deliver e (Answer chat_id)
      then store (state_of (button_handler e chat_id username full_name data s))
             = store (state_of (button_dispatch (e\<lparr>deliver := d\<rparr>) chat_id username full_name data s))
      else state_of (button_handler e chat_id username full_name data s) = s)
   \<and> (expecting_of (user_state s uid) = Some (lit ''reg_screenshot'') \<longrightarrow>
        (let after = state_of (handle_photo e uid username photo s);
             to_admin = admin_photo e uid username photo (payment_id_of (user_state s uid));
             received = ReplyText uid
               (sym_check @ lit '' Screenshot received! Admin will review and get back to you.'') [];
             failure = ReplyText uid (lit ''Error processing screenshot. Try again later.'') []
         in if photo \<noteq> [] \<and> deliver e to_admin \<and> deliver e received
            then store after
                   = (update_users uid (\<lambda>r. r\<lparr>u_payment_status := Pending_approval\<rparr>) (users s),
                      payments s, payments_id_seq s)
               \<and> user_state after = (user_state s)(uid := None)
               \<and> outbox after = outbox s @ [to_admin, received]
            else store after = store s
               \<and> user_state after = user_state s
               \<and> outbox after = outbox s @ (if photo \<noteq> [] \<and> deliver e to_admin then [to_admin] else [])
                    @ (if deliver e failure then [failure] else [])))"
proof -
  have a: "store (state_of (start (e\<lparr>deliver := d\<rparr>) chat_id username full_name s))
     = store (state_of (start e chat_id username full_name s))"
    by (simp add: store_start)
  have b: "if deliver e (Answer chat_id)
      then store (state_of (button_handler e chat_id username full_name data s))
             = store (state_of (button_dispatch (e\<lparr>deliver := d\<rparr>) chat_id username full_name data s))
      else state_of (button_handler e chat_id username full_name data s) = s"
    by (simp add: store_button_handler store_dispatch_outbox store_dispatch_deliver
        button_not_acknowledged)
  have c: "store (state_of (handle_text (e\<lparr>deliver := d\<rparr>) uid raw s))
        = store (state_of (handle_text e uid raw s))"
    by (rule store_text_deliver)
  from a b c photo_outcome show ?thesis
    by blast
qed

theorem store_before_notifications_witness:
  "deliver env_answer_only (Answer 1)
   \<and> \<not> deliver env_answer_only (SendMessage 7
        (sym_check @ lit '' Your payment has been approved by the admin. Await credentials to complete registration.'') [])
   \<and> store (state_of (button_handler env_answer_only 1 None (lit ''Admin'') (lit ''approve_reg_7_1'') st_screenshot))
       = store (state_of (button_handler env1 1 None (lit ''Admin'') (lit ''approve_reg_7_1'') st_screenshot))
   \<and> get_user_status (state_of (button_handler env_answer_only 1 None (lit ''Admin'') (lit ''approve_reg_7_1'')
        st_screenshot)) 7 = Some Approved
   \<and> \<not> deliver env_silent (Answer 1)
   \<and> state_of (button_handler env_silent 1 None (lit ''Admin'') (lit ''approve_reg_7_1'') st_screenshot)
       = st_screenshot
   \<and> expecting_of (user_state st_account 7) = Some (lit ''reg_screenshot'')
   \<and> \<not> deliver env_photo_lost (admin_photo env_photo_lost 7 (Some (lit ''al'')) [lit ''small'', lit ''large'']
          (payment_id_of (user_state st_account 7)))
   \<and> store (state_of (handle_photo env_photo_lost 7 (Some (lit ''al'')) [lit ''small'', lit ''large''] st_account))
       = store st_account
   \<and> user_state (state_of (handle_photo env_photo_lost 7 (Some (lit ''al'')) [lit ''small'', lit ''large''] st_account))
       = user_state st_account
   \<and> outbox (state_of (handle_photo env_photo_lost 7 (Some (lit ''al'')) [lit ''small'', lit ''large''] st_account))
       = outbox st_account @ [ReplyText 7 (lit ''Error processing screenshot. Try again later.'') []]"
proof -
  have e1: "env_answer_only\<lparr>deliver := deliver env1\<rparr> = env1" "env1\<lparr>deliver := deliver env1\<rparr> = env1"
    by (simp_all add: env_answer_only_def)
  have a: "deliver env_answer_only (Answer 1)" "deliver env1 (Answer 1)" "\<not> deliver env_silent (Answer 1)"
    "\<not> deliver env_answer_only (SendMessage 7
        (sym_check @ lit '' Your payment has been approved by the admin. Await credentials to complete registration.'') [])"
    by (simp_all add: env1_def env_answer_only_def env_silent_def)
  have x: "expecting_of (user_state st_account 7) = Some (lit ''reg_screenshot'')"
    by code_simp
  have n: "\<not> deliver env_photo_lost (admin_photo env_photo_lost 7 (Some (lit ''al'')) [lit ''small'', lit ''large'']
          (payment_id_of (user_state st_account 7)))"
    by (simp add: env_photo_lost_def admin_photo_def)
  have f: "deliver env_photo_lost (ReplyText 7 (lit ''Error processing screenshot. Try again later.'') [])"
    by (simp add: env_photo_lost_def env1_def)
  have g: "get_user_status (state_of (button_handler env_answer_only 1 None (lit ''Admin'') (lit ''approve_reg_7_1'')
        st_screenshot)) 7 = Some Approved"
    by code_simp
  from store_before_notifications [where e = env_answer_only and d = "deliver env1" and chat_id = 1
      and username = None and full_name = "lit ''Admin''" and s = st_screenshot
      and data = "lit ''approve_reg_7_1''"]
    store_before_notifications [where e = env1 and d = "deliver env1" and chat_id = 1
      and username = None and full_name = "lit ''Admin''" and s = st_screenshot
      and data = "lit ''approve_reg_7_1''"]
  have b: "store (state_of (button_handler env_answer_only 1 None (lit ''Admin'') (lit ''approve_reg_7_1'') st_screenshot))
       = store (state_of (button_handler env1 1 None (lit ''Admin'') (lit ''approve_reg_7_1'') st_screenshot))"
    using a by (simp add: e1)
  from store_before_notifications [where e = env_silent and chat_id = 1
      and username = None and full_name = "lit ''Admin''" and s = st_screenshot
      and data = "lit ''approve_reg_7_1''"]
  have c: "state_of (button_handler env_silent 1 None (lit ''Admin'') (lit ''approve_reg_7_1'') st_screenshot)
       = st_screenshot"
    using a by simp
  from store_before_notifications [where e = env_photo_lost and s = st_account and uid = 7
      and username = "Some (lit ''al'')" and photo = "[lit ''small'', lit ''large'']"]
  have p: "store (state_of (handle_photo env_photo_lost 7 (Some (lit ''al'')) [lit ''small'', lit ''large''] st_account))
       = store st_account
   \<and> user_state (state_of (handle_photo env_photo_lost 7 (Some (lit ''al'')) [lit ''small'', lit ''large''] st_account))
       = user_state st_account
   \<and> outbox (state_of (handle_photo env_photo_lost 7 (Some (lit ''al'')) [lit ''small'', lit ''large''] st_account))
       = outbox st_account @ [ReplyText 7 (lit ''Error processing screenshot. Try again later.'') []]"
    using x n f by (simp add: Let_def)
  from a x n b c p g show ?thesis by blast
qed

subsection \<open>A registration from first contact to the credentials\<close>

text \<open>
  Claim C5, as stated, fails: the sequence of the claim goes from the approval
  straight to the credentials. Only the finalize button opens the administrator's
  session, so without it the text "alice, Secret1" is answered with "I didn't
  understand that": the user stays approved, keeps the old username and receives no
  credentials.
\<close>

theorem credentials_without_finalize:
  "get_user_status st_without_finalize 7 = Some Approved
   \<and> map u_username (users_of st_without_finalize 7) = [Some (lit ''al'')]
   \<and> map p_status (payments_of st_without_finalize 7) = [Attempt_approved]
   \<and> filter (\<lambda>m. case m of SendMessage c t k \<Rightarrow> contains t (lit ''Secret1'') | _ \<Rightarrow> False)
        (outbox st_without_finalize) = []
   \<and> last (outbox st_without_finalize)
       = ReplyText 1 (lit ''I didn't understand that. Use /start to begin registration or /help for assistance.'') []"
  by code_simp

lemma send_delivered: "\<forall>m. deliver e m \<Longrightarrow> send e m s = Inr (s\<lparr>outbox := outbox s @ [m]\<rparr>)"
  by (simp add: send_def)

lemma dispatch_reg_standard:
  "button_dispatch e chat_id username full_name (lit ''reg_standard'') s
     = reg_package e chat_id username full_name (lit ''reg_standard'') s"
  by (simp add: button_dispatch_def)

lemma split_bank_a: "py_split (lit ''select_account:'') (lit ''select_account:Bank A'') = [(lit ''''), (lit ''Bank A'')]"
  by code_simp

lemma lines_alice: "cred_lines (strip (lit ''alice\<newline>Secret1'')) = [(lit ''alice''), (lit ''Secret1'')]"
  by code_simp

lemma contains_alice:
  "contains (credentials_text (lit ''alice'') (lit ''Secret1'')) (lit ''alice'')"
  "contains (credentials_text (lit ''alice'') (lit ''Secret1'')) (lit ''Secret1'')"
  by code_simp+

text \<open>
  Claim C5, amended. From the empty store, when every message is delivered and the
  actor \<open>c\<close> is not 0: the actor enters, chooses Standard, selects Bank A and uploads
  a screenshot; the administrator presses the Approve button of the photo message,
  presses the finalize button for \<open>c\<close> and sends "alice" and "Secret1" in two lines.
  Then the user is registered with the username alice, the actor has exactly one
  payment and it is approved, and the actor has been sent the credentials message,
  which contains "alice" and "Secret1". (The data of the approve callback is the
  data of the Approve button that \<^verbatim>\<open>handle_photo\<close> sent to the administrator.)
\<close>

theorem full_registration:
  assumes ok: "\<forall>m. deliver e m" and c: "c \<noteq> 0" and photo: "photo \<noteq> []"
  shows "get_user_status
           (run e (registration e c username full_name photo admin_username admin_name) init_state) c
           = Some Registered
     \<and> map u_username
           (users_of (run e (registration e c username full_name photo admin_username admin_name) init_state) c)
           = [Some (lit ''alice'')]
     \<and> map p_status
           (payments_of (run e (registration e c username full_name photo admin_username admin_name) init_state) c)
           = [Attempt_approved]
     \<and> SendMessage c (credentials_text (lit ''alice'') (lit ''Secret1'')) []
           \<in> set (outbox (run e (registration e c username full_name photo admin_username admin_name) init_state))
     \<and> contains (credentials_text (lit ''alice'') (lit ''Secret1'')) (lit ''alice'')
     \<and> contains (credentials_text (lit ''alice'') (lit ''Secret1'')) (lit ''Secret1'')
     \<and> admin_photo e c username photo (Some 1)
           \<in> set (outbox (run e (registration e c username full_name photo admin_username admin_name) init_state))
     \<and> ((lit ''Approve''), (lit ''approve_reg_'') @ py_str c @ (lit ''_'') @ py_str 1)
           \<in> set (concat (review_keyboard c (Some 1)))"
proof -
  define s1 where "s1 = state_of (start e c username full_name init_state)"
  define s2 where "s2 = state_of (button_handler e c username full_name (lit ''reg_standard'') s1)"
  define s3 where "s3 = state_of (button_handler e c username full_name (lit ''select_account:Bank A'') s2)"
  define s4 where "s4 = state_of (handle_photo e c username photo s3)"
  define s5 where "s5 = state_of (button_handler e (ADMIN_ID e) admin_username admin_name
      ((lit ''approve_reg_'') @ py_str c @ (lit ''_'') @ py_str 1) s4)"
  define s6 where "s6 = state_of (button_handler e (ADMIN_ID e) admin_username admin_name
      ((lit ''finalize_reg_'') @ py_str c) s5)"
  define s7 where "s7 = state_of (handle_text e (ADMIN_ID e) (lit ''alice\<newline>Secret1'') s6)"
  note sd = send_delivered [OF ok]
  have s1: "users s1 = [new_user_row c username full_name None New]" "payments s1 = []"
    "payments_id_seq s1 = 0" "user_state s1 = (\<lambda>c. None)"
    by (simp_all add: s1_def start_def init_state_def select_user_def sd)
  have s2: "users s2 = [new_user_row c username full_name (Some (lit ''Standard'')) Pending_payment]"
    "payments s2 = []" "payments_id_seq s2 = 0" "user_state s2 = (\<lambda>c. None)"
    by (simp_all add: s2_def button_handler_def dispatch_reg_standard reg_package_def Let_def sd
        then_do_def try_except_def s1 update_users_def rowcount_users_def new_user_row_def)
  have "startswith (lit ''select_account:Bank A'') (lit ''select_account:'')"
    by (simp add: startswith_def)
  note d3 = dispatch_prefix_select [OF this]
  have s3: "users s3 = users s2"
    "payments s3 = [new_payment_row 1 c (Some (lit ''Standard'')) (lit ''Bank A'') (db_now e)]"
    "payments_id_seq s3 = 1"
    "user_state s3 = (\<lambda>c. None)(c \<mapsto> \<lparr>expecting = (lit ''reg_screenshot''), payment_id = Some 1, for_user = None\<rparr>)"
    by (simp_all add: s3_def button_handler_def d3 select_account_def split_bank_a Let_def sd
        then_do_def try_except_def s2 select_user_def new_user_row_def)
  have s4: "users s4 = [new_user_row c username full_name (Some (lit ''Standard'')) Pending_approval]"
    "payments s4 = payments s3" "payments_id_seq s4 = 1" "user_state s4 = (\<lambda>c. None)"
    "admin_photo e c username photo (Some 1) \<in> set (outbox s4)"
    using photo
    by (simp_all add: s4_def handle_photo_def Let_def sd then_do_def try_except_def s3 s2
        expecting_of_def payment_id_of_def update_users_def new_user_row_def)
  have h5: "button_handler e (ADMIN_ID e) admin_username admin_name
      ((lit ''approve_reg_'') @ py_str c @ (lit ''_'') @ py_str 1) s4
      = then_do (send e (Answer (ADMIN_ID e)) s4)
         (\<lambda>s1. try_except (approve_reg e (ADMIN_ID e) c (Some 1) s1)
            (\<lambda>s2. Inr (state_of (send e (EditMessageText (ADMIN_ID e) (lit ''An error occurred. Contact admin.'') []) s2))))"
    unfolding button_handler_def dispatch_approve ..
  have s5: "users s5 = [(new_user_row c username full_name (Some (lit ''Standard'')) Approved)
                          \<lparr>u_approved_at := Some (now e 1)\<rparr>]"
    "payments s5 = [(new_payment_row 1 c (Some (lit ''Standard'')) (lit ''Bank A'') (db_now e))
                      \<lparr>p_status := Attempt_approved, p_approved_at := Some (now e 0)\<rparr>]"
    "user_state s5 = (\<lambda>c. None)"
    "admin_photo e c username photo (Some 1) \<in> set (outbox s5)"
    unfolding s5_def h5
    by (simp_all add: approve_reg_def Let_def sd then_do_def try_except_def s4 s3
        truthy_def update_users_def update_payments_def new_user_row_def new_payment_row_def)
  have h6: "button_handler e (ADMIN_ID e) admin_username admin_name ((lit ''finalize_reg_'') @ py_str c) s5
      = then_do (send e (Answer (ADMIN_ID e)) s5)
         (\<lambda>s1. try_except (finalize_reg e (ADMIN_ID e) c s1)
            (\<lambda>s2. Inr (state_of (send e (EditMessageText (ADMIN_ID e) (lit ''An error occurred. Contact admin.'') []) s2))))"
    unfolding button_handler_def dispatch_finalize ..
  have s6: "users s6 = users s5" "payments s6 = payments s5"
    "user_state s6 (ADMIN_ID e) = Some \<lparr>expecting = (lit ''user_credentials''), payment_id = None, for_user = Some c\<rparr>"
    "admin_photo e c username photo (Some 1) \<in> set (outbox s6)"
    unfolding s6_def h6
    by (simp_all add: finalize_reg_def Let_def sd then_do_def try_except_def s5)
  have s7: "users s7 = [(new_user_row c username full_name (Some (lit ''Standard'')) Registered)
                          \<lparr>u_username := Some (lit ''alice''), u_approved_at := Some (now e 1),
                            u_registration_date := Some (now e 0)\<rparr>]"
    "payments s7 = payments s5"
    "SendMessage c (credentials_text (lit ''alice'') (lit ''Secret1'')) [] \<in> set (outbox s7)"
    "admin_photo e c username photo (Some 1) \<in> set (outbox s7)"
    using c
    by (simp_all add: s7_def handle_text_def lines_alice Let_def s6 expecting_of_def for_user_of_def
        set_credentials_def sd then_do_def try_except_def try_finally_def pop_admin_def s5
        update_users_def update_payments_def new_user_row_def new_payment_row_def)
  have r: "run e (registration e c username full_name photo admin_username admin_name) init_state = s7"
    by (simp add: registration_def s7_def s6_def s5_def s4_def s3_def s2_def s1_def)
  show ?thesis
    by (simp add: r get_user_status_def users_of_def payments_of_def select_user_def s7 s5
        new_user_row_def new_payment_row_def contains_alice review_keyboard_def str_opt_def)
qed

theorem full_registration_witness:
  "(\<forall>m. deliver env1 m) \<and> (7::int) \<noteq> 0 \<and> [(lit ''small''), (lit ''large'')] \<noteq> ([]::str list)
   \<and> registration env1 7 (Some (lit ''al'')) (lit ''Al Ice'') [(lit ''small''), (lit ''large'')] None (lit ''Admin'') = upto_registered
   \<and> get_user_status st_registered 7 = Some Registered
   \<and> map u_username (users_of st_registered 7) = [Some (lit ''alice'')]
   \<and> map p_status (payments_of st_registered 7) = [Attempt_approved]
   \<and> SendMessage 7 (credentials_text (lit ''alice'') (lit ''Secret1'')) [] \<in> set (outbox st_registered)"
proof -
  have a: "\<forall>m. deliver env1 m"
    by (simp add: env1_def)
  have b: "(7::int) \<noteq> 0"
    by simp
  have p: "[(lit ''small''), (lit ''large'')] \<noteq> ([]::str list)"
    by simp
  have q: "registration env1 7 (Some (lit ''al'')) (lit ''Al Ice'') [(lit ''small''), (lit ''large'')] None (lit ''Admin'') = upto_registered"
    by code_simp
  have r: "run env1 (registration env1 7 (Some (lit ''al'')) (lit ''Al Ice'') [(lit ''small''), (lit ''large'')] None (lit ''Admin'')) init_state
             = st_registered"
    by (simp only: q st_registered_def)
  from full_registration [OF a b p, of "Some (lit ''al'')" "(lit ''Al Ice'')" None "(lit ''Admin'')"] a q
  show ?thesis
    unfolding r by simp
qed

end
